theory Spec2Isabelle
  imports Complex_Main "HOL-Library.List_Lexorder" "HOL-Library.Char_ord"
begin

section \<open>Python values\<close>

text \<open>
  A Python \<^verbatim>\<open>str\<close> is a \<^typ>\<open>string\<close>, one \<^typ>\<open>char\<close> per code point; code points
  from 256 on are outside the model. A \<^verbatim>\<open>dict\<close> is an association list in insertion
  order: \<^verbatim>\<open>k in d\<close> is \<open>map_of d k \<noteq> None\<close>, \<^verbatim>\<open>d[k]\<close> and \<^verbatim>\<open>d.get(k)\<close> read
  \<open>map_of d k\<close>, \<^verbatim>\<open>d.items()\<close> is the list itself. The keys of a real dict are distinct.
\<close>

type_synonym ('k, 'v) dict = "('k \<times> 'v) list"

text \<open>
  A Python \<^verbatim>\<open>float\<close> is a finite number, an infinity or NaN. Comparison of floats is
  exact, and every comparison with NaN is false.
\<close>

datatype pyfloat = Fin real | PInf | NInf | NaN

fun float_ge :: "pyfloat \<Rightarrow> pyfloat \<Rightarrow> bool" where
  "float_ge NaN _ = False"
| "float_ge _ NaN = False"
| "float_ge PInf _ = True"
| "float_ge _ NInf = True"
| "float_ge NInf _ = False"
| "float_ge _ PInf = False"
| "float_ge (Fin a) (Fin b) = (b \<le> a)"

fun float_lt :: "pyfloat \<Rightarrow> pyfloat \<Rightarrow> bool" where
  "float_lt NaN _ = False"
| "float_lt _ NaN = False"
| "float_lt _ NInf = False"
| "float_lt PInf _ = False"
| "float_lt NInf _ = True"
| "float_lt _ PInf = True"
| "float_lt (Fin a) (Fin b) = (a < b)"

definition float_gt :: "pyfloat \<Rightarrow> pyfloat \<Rightarrow> bool" where
  "float_gt a b = float_lt b a"

text \<open>
  The values \<^verbatim>\<open>json.loads\<close> produces, which is what a field typed \<^verbatim>\<open>Any\<close> holds.
\<close>

datatype json =
    JNull
  | JBool bool
  | JInt int
  | JFloat pyfloat
  | JStr string
  | JList "json list"
  | JDict "(string \<times> json) list"

text \<open>
  \<^verbatim>\<open>v == n\<close> for an arbitrary value \<open>v\<close> and an \<^verbatim>\<open>int\<close> \<open>n\<close>: a bool is the integer 0 or
  1, a float is compared by its exact value, every other kind of value differs.
\<close>

fun py_eq_int :: "json \<Rightarrow> int \<Rightarrow> bool" where
  "py_eq_int (JInt i) n = (i = n)"
| "py_eq_int (JBool b) n = ((if b then 1 else 0) = n)"
| "py_eq_int (JFloat (Fin r)) n = (r = of_int n)"
| "py_eq_int _ n = False"

text \<open>\<^verbatim>\<open>str.strip()\<close>: the code points below 256 that Python counts as whitespace.\<close>

definition is_space :: "char \<Rightarrow> bool" where
  "is_space c = (c \<in> set [CHR 0x09, CHR 0x0A, CHR 0x0B, CHR 0x0C, CHR 0x0D,
     CHR 0x1C, CHR 0x1D, CHR 0x1E, CHR 0x1F, CHR 0x20, CHR 0x85, CHR 0xA0])"

definition strip :: "string \<Rightarrow> string" where
  "strip s = rev (dropWhile is_space (rev (dropWhile is_space s)))"

definition startswith :: "string \<Rightarrow> string \<Rightarrow> bool" where
  "startswith s p = (take (length p) s = p)"

text \<open>\<^verbatim>\<open>(s or "")\<close> for an optional string.\<close>

definition or_empty :: "string option \<Rightarrow> string" where
  "or_empty s = (case s of None \<Rightarrow> [] | Some t \<Rightarrow> t)"

datatype py_error = IndexError

section \<open>model/secnode.py\<close>

record PlcTcpConfig =
  server_ip :: "string option"
  server_port :: "int option"
  interface_healthy_tag :: "string option"

record PlcNodeConfig =
  tcp :: "PlcTcpConfig option"
  secop_version :: "string option"
  plc_timestamp_tag :: "string option"

text \<open>
  \<^verbatim>\<open>members\<close> is \<^verbatim>\<open>Union[Dict[str, int], List[Dict[str, Any]]]\<close>.
\<close>

datatype Members =
    MDict "(string, int) dict"
  | MList "(string, json) dict list"

datatype DataInfo = DataInfo
  (type_di: string)
  (unit_di: "string option")
  (min_di: "pyfloat option")
  (max_di: "pyfloat option")
  (maxchars: "int option")
  (maxlen: "int option")
  (members: "Members option")
  (argument: "DataInfo option")
  (result: "DataInfo option")

record Accessible =
  description :: string
  datainfo :: DataInfo
  readonly :: bool
  checkable :: "bool option"

text \<open>
  The constructor of \<^verbatim>\<open>Accessible\<close>: \<^verbatim>\<open>readonly: bool = False\<close> and
  \<^verbatim>\<open>checkable: Optional[bool] = None\<close> take their defaults when the input leaves them out.
\<close>

definition Accessible_init ::
  "string \<Rightarrow> DataInfo \<Rightarrow> bool option \<Rightarrow> bool option \<Rightarrow> Accessible" where
  "Accessible_init d di ro ck =
     \<lparr> description = d, datainfo = di,
       readonly = (case ro of None \<Rightarrow> False | Some b \<Rightarrow> b),
       checkable = ck \<rparr>"

record PlcValueConfig =
  read_expr :: "string option"
  enum_tag_value :: "string option"
  enum_member_map :: "(string, string) dict option"

record PlcStatusConfig =
  disabled_expr :: "string option"
  disabled_description :: "string option"
  hw_error_expr :: "string option"
  hw_error_description :: "string option"

record PlcTargetConfig =
  write_stmt :: "string option"
  enum_tag :: "string option"
  change_possible_expr :: "string option"
  reach_timeout_s :: "int option"
  reach_abs_tolerance :: "pyfloat option"

record PlcClearErrorsConfig =
  cmd_stmt :: "string option"

record PlcModuleConfig =
  timestamp_tag :: "string option"
  value_cfg :: "PlcValueConfig option"
  status_cfg :: "PlcStatusConfig option"
  target_cfg :: "PlcTargetConfig option"
  clear_errors_cfg :: "PlcClearErrorsConfig option"

record Module =
  interface_classes :: "string list"
  features :: "string list"
  description_mod :: string
  implementation :: string
  accessibles :: "(string, Accessible) dict"
  x_plc_mod :: "PlcModuleConfig option"

record SecNodeConfig =
  equipment_id :: string
  description_node :: string
  firmware :: string
  modules :: "(string, Module) dict"
  x_plc :: "PlcNodeConfig option"

section \<open>rules/types.py\<close>

datatype Severity = ERROR | WARNING

text \<open>
  The text of a finding is an f-string. Its pieces are kept apart where a value that is
  not a string is interpolated: an \<^verbatim>\<open>int\<close>, a value typed \<^verbatim>\<open>Any\<close>, a list of strings.
\<close>

datatype fpart = Lit string | FInt int | FVal json | FStrs "string list"

record Finding =
  rule_id :: string
  severity :: Severity
  path :: string
  message :: "fpart list"
  hint :: "fpart list option"
  category :: "string option"
  plc_refs :: "string list"

definition finding :: "string \<Rightarrow> Severity \<Rightarrow> string \<Rightarrow> fpart list \<Rightarrow> Finding" where
  "finding rid sev p msg =
     \<lparr> rule_id = rid, severity = sev, path = p, message = msg,
       hint = None, category = None, plc_refs = [] \<rparr>"

section \<open>validators/validate\_config.py: report and decision\<close>

definition has_errors :: "Finding list \<Rightarrow> bool" where
  "has_errors findings = list_ex (\<lambda>f. severity f = ERROR) findings"

text \<open>The summary of \<^verbatim>\<open>build_report\<close>: the pair of the two counts.\<close>

definition build_report_summary :: "Finding list \<Rightarrow> nat \<times> nat" where
  "build_report_summary findings =
     (length (filter (\<lambda>f. severity f = ERROR) findings),
      length (filter (\<lambda>f. severity f = WARNING) findings))"

section \<open>rules/secop\_rules.py\<close>

definition has_key :: "('k, 'v) dict \<Rightarrow> 'k \<Rightarrow> bool" where
  "has_key d k = (map_of d k \<noteq> None)"

text \<open>
  \<^verbatim>\<open>for mod_name, mod in cfg.modules.items()\<close> with a body that appends findings: the
  findings of the modules, in order. The module is written \<open>m\<close> below.
\<close>

definition for_modules :: "(string \<Rightarrow> Module \<Rightarrow> Finding list) \<Rightarrow> SecNodeConfig \<Rightarrow> Finding list" where
  "for_modules body cfg = concat (map (\<lambda>(mod_name, m). body mod_name m) (modules cfg))"

text \<open>\<^verbatim>\<open>for acc_name, acc in (mod.accessibles or {}).items()\<close>, likewise.\<close>

definition for_accessibles :: "(string \<Rightarrow> Accessible \<Rightarrow> Finding list) \<Rightarrow> Module \<Rightarrow> Finding list" where
  "for_accessibles body m = concat (map (\<lambda>(acc_name, acc). body acc_name acc) (accessibles m))"

definition PROTOCOL_TYPES :: "string list" where
  "PROTOCOL_TYPES = [''double'', ''scaled'', ''int'', ''bool'', ''enum'', ''string'',
     ''blob'', ''array'', ''tuple'', ''struct'', ''matrix'', ''command'']"

definition PLC_UNSUPPORTED_TYPES :: "string list" where
  "PLC_UNSUPPORTED_TYPES = [''scaled'', ''blob'', ''matrix'', ''struct'']"

definition ALLOWED_TYPES_THIS_CODEGEN :: "string list" where
  "ALLOWED_TYPES_THIS_CODEGEN = filter (\<lambda>t. t \<notin> set PLC_UNSUPPORTED_TYPES) PROTOCOL_TYPES"

definition has_class :: "Module \<Rightarrow> string \<Rightarrow> bool" where
  "has_class m cls_name = (cls_name \<in> set (interface_classes m))"

definition is_drivable :: "Module \<Rightarrow> bool" where
  "is_drivable m = has_class m ''Drivable''"

definition is_writable :: "Module \<Rightarrow> bool" where
  "is_writable m = (has_class m ''Writable'' \<or> is_drivable m)"

definition is_readable :: "Module \<Rightarrow> bool" where
  "is_readable m = (has_class m ''Readable'' \<or> is_writable m)"

definition required_accessibles_for_module :: "Module \<Rightarrow> string set" where
  "required_accessibles_for_module m =
     (if is_readable m then {''value'', ''status'', ''pollinterval''} else {})
     \<union> (if is_writable m then {''target''} else {})
     \<union> (if is_drivable m then {''stop''} else {})"

definition mod_path :: "string \<Rightarrow> string" where
  "mod_path mod_name = ''$.modules.'' @ mod_name"

definition acc_path :: "string \<Rightarrow> string \<Rightarrow> string" where
  "acc_path mod_name acc_name = ''$.modules.'' @ mod_name @ ''.accessibles.'' @ acc_name"

subsection \<open>R-NODE-001\<close>

definition rule_non_empty_modules :: "SecNodeConfig \<Rightarrow> Finding list" where
  "rule_non_empty_modules cfg =
     (if modules cfg = [] then
        [finding ''R-NODE-001'' ERROR ''$.modules'' [Lit ''Node must contain at least one module'']]
      else [])"

subsection \<open>R-MOD-001\<close>

definition class_hint :: string where
  "class_hint = ''Readable is implicit in Writable, and Writable is implicit in Drivable.''"

definition invalid_class_finding :: "string \<Rightarrow> string \<Rightarrow> Finding" where
  "invalid_class_finding mod_name cls =
     (finding ''R-MOD-001'' ERROR (mod_path mod_name @ ''.interface_classes'')
        [Lit (''Invalid interface class '' @ [CHR 0x27] @ cls @ [CHR 0x27])])
     \<lparr> hint := Some [Lit (''Allowed values are: Readable, Writable, Drivable. '' @ class_hint)] \<rparr>"

definition not_single_finding :: "string \<Rightarrow> Finding" where
  "not_single_finding mod_name =
     (finding ''R-MOD-001'' ERROR (mod_path mod_name @ ''.interface_classes'')
        [Lit ''interface_classes must be a list with exactly one element''])
     \<lparr> hint := Some [Lit (''Use exactly one of: ['' @ [CHR 0x27] @ ''Readable'' @ [CHR 0x27]
          @ ''], ['' @ [CHR 0x27] @ ''Writable'' @ [CHR 0x27] @ ''], or ['' @ [CHR 0x27]
          @ ''Drivable'' @ [CHR 0x27] @ '']. '' @ class_hint)] \<rparr>"

definition interface_classes_single_mod :: "string \<Rightarrow> Module \<Rightarrow> Finding list" where
  "interface_classes_single_mod mod_name m =
     (case interface_classes m of
        [cls] \<Rightarrow>
          if cls \<notin> set [''Readable'', ''Writable'', ''Drivable''] then
            [invalid_class_finding mod_name cls]
          else []
      | _ \<Rightarrow> [not_single_finding mod_name])"

definition rule_interface_classes_single :: "SecNodeConfig \<Rightarrow> Finding list" where
  "rule_interface_classes_single = for_modules interface_classes_single_mod"

subsection \<open>R-MOD-002\<close>

definition features_and_offset_mod :: "string \<Rightarrow> Module \<Rightarrow> Finding list" where
  "features_and_offset_mod mod_name m =
     (let feats = features m;
          unknown = filter (\<lambda>f. f \<noteq> ''HasOffset'') feats
      in
        (if unknown \<noteq> [] then
           [(finding ''R-MOD-002'' ERROR (mod_path mod_name @ ''.features'')
               [Lit ''Unsupported feature(s) in module.features (not implemented on this PLC SEC node).''])
            \<lparr> hint := Some [Lit (''Only supported protocol feature name is '' @ [CHR 0x27] @ ''HasOffset''
                 @ [CHR 0x27] @ '' (but PLC does not implement it). Unknown=''), FStrs unknown] \<rparr>]
         else [])
        @ (if ''HasOffset'' \<in> set feats then
           [(finding ''R-MOD-002'' ERROR (mod_path mod_name @ ''.features'')
               [Lit (''features includes '' @ [CHR 0x27] @ ''HasOffset'' @ [CHR 0x27]
                  @ '', but this PLC SEC node does not implement HasOffset.'')])
            \<lparr> hint := Some [Lit (''For PLC nodes, offset/scaling/format conversions should be handled directly in PLC logic; provide the final scaled value via ''
                 @ [CHR 0x27] @ ''value'' @ [CHR 0x27] @ ''.'')] \<rparr>]
         else [])
        @ (if has_key (accessibles m) ''offset'' then
           [(finding ''R-MOD-002'' ERROR (acc_path mod_name ''offset'')
               [Lit (''Module defines '' @ [CHR 0x27] @ ''offset'' @ [CHR 0x27]
                  @ '', but this PLC SEC node does not implement the offset accessible.'')])
            \<lparr> hint := Some [Lit (''For PLC nodes, apply offsets in PLC logic and expose only the final scaled value via ''
                 @ [CHR 0x27] @ ''value'' @ [CHR 0x27] @ ''.'')] \<rparr>]
         else []))"

definition rule_features_and_offset_not_supported_on_plc :: "SecNodeConfig \<Rightarrow> Finding list" where
  "rule_features_and_offset_not_supported_on_plc = for_modules features_and_offset_mod"

subsection \<open>R-CLS-001, R-CLS-002, R-CLS-003\<close>

definition missing_readable :: "Module \<Rightarrow> string list" where
  "missing_readable m =
     filter (\<lambda>k. \<not> has_key (accessibles m) k) [''value'', ''status'', ''pollinterval'']"

definition cls001 :: "string \<Rightarrow> string list \<Rightarrow> Finding" where
  "cls001 mod_name missing =
     (finding ''R-CLS-001'' ERROR (mod_path mod_name @ ''.accessibles'')
        [Lit ''Readable modules must define value/status/pollinterval''])
     \<lparr> hint := Some [Lit ''Missing: '', FStrs missing] \<rparr>"

definition cls002 :: "string \<Rightarrow> Finding" where
  "cls002 mod_name =
     finding ''R-CLS-002'' ERROR (acc_path mod_name ''target'')
       [Lit ''Writable/Drivable modules must define target'']"

definition cls003 :: "string \<Rightarrow> Finding" where
  "cls003 mod_name =
     finding ''R-CLS-003'' ERROR (acc_path mod_name ''stop'')
       [Lit ''Drivable modules must define stop command'']"

definition required_accessibles_mod :: "string \<Rightarrow> Module \<Rightarrow> Finding list" where
  "required_accessibles_mod mod_name m =
     (if is_readable m \<and> missing_readable m \<noteq> [] then [cls001 mod_name (missing_readable m)]
      else [])
     @ (if is_writable m \<and> \<not> has_key (accessibles m) ''target'' then [cls002 mod_name] else [])
     @ (if is_drivable m \<and> \<not> has_key (accessibles m) ''stop'' then [cls003 mod_name] else [])"

definition rule_required_accessibles :: "SecNodeConfig \<Rightarrow> Finding list" where
  "rule_required_accessibles = for_modules required_accessibles_mod"

subsection \<open>R-CLS-004\<close>

definition allowed_by_class :: "(string, string list) dict" where
  "allowed_by_class =
     [(''Readable'', [''value'', ''status'', ''pollinterval'', ''clear_errors'']),
      (''Writable'', [''value'', ''status'', ''pollinterval'', ''target'', ''target_limits'', ''clear_errors'']),
      (''Drivable'', [''value'', ''status'', ''pollinterval'', ''target'', ''target_limits'', ''clear_errors'', ''stop''])]"

definition forbidden_hint :: string where
  "forbidden_hint = ''Supported non-customised accessibles are: ''
     @ ''Readable: value, status, pollinterval, clear_errors; ''
     @ ''Writable: Readable + target, target_limits; ''
     @ ''Drivable: Writable + stop.''"

definition forbidden_finding :: "string \<Rightarrow> string \<Rightarrow> string \<Rightarrow> Finding" where
  "forbidden_finding mod_name cls acc =
     (finding ''R-CLS-004'' ERROR (acc_path mod_name acc)
        [Lit (''Accessible '' @ [CHR 0x27] @ acc @ [CHR 0x27]
           @ '' is not allowed for interface class '' @ [CHR 0x27] @ cls @ [CHR 0x27])])
     \<lparr> hint := Some [Lit forbidden_hint] \<rparr>"

text \<open>
  The body of the module loop. \<^verbatim>\<open>mod.interface_classes[0]\<close> raises \<^verbatim>\<open>IndexError\<close> on an
  empty list; nothing in the rule catches it.
\<close>

definition forbidden_accessibles_mod :: "string \<Rightarrow> Module \<Rightarrow> py_error + Finding list" where
  "forbidden_accessibles_mod mod_name m =
     (case interface_classes m of
        [] \<Rightarrow> Inl IndexError
      | cls # _ \<Rightarrow>
          let allowed = (case map_of allowed_by_class cls of None \<Rightarrow> [] | Some names \<Rightarrow> names) in
          Inr (concat (map (\<lambda>acc.
                 if startswith acc ''_'' then []
                 else if acc \<notin> set allowed then [forbidden_finding mod_name cls acc]
                 else [])
               (map fst (accessibles m)))))"

fun forbidden_accessibles_loop ::
  "(string \<times> Module) list \<Rightarrow> Finding list \<Rightarrow> py_error + Finding list" where
  "forbidden_accessibles_loop [] findings = Inr findings"
| "forbidden_accessibles_loop ((mod_name, m) # rest) findings =
     (case forbidden_accessibles_mod mod_name m of
        Inl e \<Rightarrow> Inl e
      | Inr fs \<Rightarrow> forbidden_accessibles_loop rest (findings @ fs))"

definition rule_forbidden_accessibles_by_class :: "SecNodeConfig \<Rightarrow> py_error + Finding list" where
  "rule_forbidden_accessibles_by_class cfg = forbidden_accessibles_loop (modules cfg) []"

subsection \<open>R-STAT-001 to R-STAT-005\<close>

definition status_members_path :: "string \<Rightarrow> string" where
  "status_members_path mod_name = acc_path mod_name ''status'' @ ''.datainfo.members[0].members''"

definition base_required :: "(string, int) dict" where
  "base_required = [(''IDLE'', 100), (''WARN'', 200), (''ERROR'', 400)]"

definition allowed_status_keys :: "string list" where
  "allowed_status_keys = [''DISABLED'', ''IDLE'', ''WARN'', ''BUSY'', ''ERROR'']"

definition expected_codes :: "Module \<Rightarrow> (string, int) dict" where
  "expected_codes m = base_required @ (if is_drivable m then [(''BUSY'', 300)] else [])"

definition stat_rid :: "string \<Rightarrow> string" where
  "stat_rid key = (if key = ''BUSY'' then ''R-STAT-003'' else ''R-STAT-002'')"

definition required_finding :: "string \<Rightarrow> string \<Rightarrow> int \<Rightarrow> Finding" where
  "required_finding mod_name key expected =
     finding (stat_rid key) ERROR (status_members_path mod_name)
       [Lit (key @ '':''), FInt expected, Lit '' is required'']"

definition wrong_code_finding :: "string \<Rightarrow> string \<Rightarrow> int \<Rightarrow> json \<Rightarrow> Finding" where
  "wrong_code_finding mod_name key expected actual =
     (finding (stat_rid key) ERROR (status_members_path mod_name)
        [Lit (''Wrong status code for '' @ [CHR 0x27] @ key @ [CHR 0x27] @ '': expected ''),
         FInt expected, Lit '', got '', FVal actual])
     \<lparr> hint := Some [Lit ''Status codes are fixed by the SECoP protocol.''] \<rparr>"

text \<open>The body of \<^verbatim>\<open>for key, expected in expected_codes.items()\<close>.\<close>

definition check_expected :: "string \<Rightarrow> (string, json) dict \<Rightarrow> string \<times> int \<Rightarrow> Finding list" where
  "check_expected mod_name enum_members ke =
     (case ke of (key, expected) \<Rightarrow>
        (case map_of enum_members key of
           None \<Rightarrow> [required_finding mod_name key expected]
         | Some actual \<Rightarrow>
             if \<not> py_eq_int actual expected then [wrong_code_finding mod_name key expected actual]
             else []))"

definition busy_forbidden_finding :: "string \<Rightarrow> Finding" where
  "busy_forbidden_finding mod_name =
     finding ''R-STAT-003'' ERROR (status_members_path mod_name)
       [Lit ''BUSY is forbidden for non-Drivable modules'']"

definition disabled_code_finding :: "string \<Rightarrow> json \<Rightarrow> Finding" where
  "disabled_code_finding mod_name actual =
     (finding ''R-STAT-004'' ERROR (status_members_path mod_name)
        [Lit (''Wrong status code for '' @ [CHR 0x27] @ ''DISABLED'' @ [CHR 0x27] @ '': expected 0, got ''),
         FVal actual])
     \<lparr> hint := Some [Lit ''DISABLED status code is fixed by the SECoP protocol.''] \<rparr>"

definition extra_keys :: "(string, json) dict \<Rightarrow> string list" where
  "extra_keys enum_members =
     sort (filter (\<lambda>k. k \<notin> set allowed_status_keys) (map fst enum_members))"

definition extra_finding :: "string \<Rightarrow> string list \<Rightarrow> Finding" where
  "extra_finding mod_name extra =
     finding ''R-STAT-005'' WARNING (status_members_path mod_name)
       [Lit (''Status enum contains unsupported members for current PLC SEC node version; ''
             @ ''they will be ignored by the generator. Extra=''), FStrs extra]"

text \<open>
  Steps 2 to 5 of the rule, once the enum's members are at hand. (The source also computes
  a local \<^verbatim>\<open>disabled_expr\<close> here and never reads it.)
\<close>

definition status_codes :: "string \<Rightarrow> Module \<Rightarrow> (string, json) dict \<Rightarrow> Finding list" where
  "status_codes mod_name m enum_members =
     concat (map (check_expected mod_name enum_members) (expected_codes m))
     @ (if \<not> is_drivable m \<and> has_key enum_members ''BUSY'' then [busy_forbidden_finding mod_name]
        else [])
     @ (case map_of enum_members ''DISABLED'' of
          None \<Rightarrow> []
        | Some actual \<Rightarrow>
            if \<not> py_eq_int actual 0 then [disabled_code_finding mod_name actual] else [])
     @ (if extra_keys enum_members \<noteq> [] then [extra_finding mod_name (extra_keys enum_members)]
        else [])"

definition stat001 :: "string \<Rightarrow> string \<Rightarrow> string \<Rightarrow> Finding" where
  "stat001 mod_name suffix msg =
     finding ''R-STAT-001'' ERROR (acc_path mod_name ''status'' @ suffix) [Lit msg]"

definition status_structure_and_codes_mod :: "string \<Rightarrow> Module \<Rightarrow> Finding list" where
  "status_structure_and_codes_mod mod_name m =
     (case map_of (accessibles m) ''status'' of
        None \<Rightarrow> []
      | Some status \<Rightarrow>
          let di = datainfo status in
          if type_di di \<noteq> ''tuple'' then
            [stat001 mod_name ''.datainfo.type''
               (''status must be datainfo.type == '' @ [CHR 0x27] @ ''tuple'' @ [CHR 0x27])]
          else
            (case members di of
               Some (MList [member0, member1]) \<Rightarrow>
                 if map_of member0 ''type'' \<noteq> Some (JStr ''enum'') then
                   [stat001 mod_name ''.datainfo.members[0]''
                      ''status.members[0] must be an enum definition'']
                 else if map_of member1 ''type'' \<noteq> Some (JStr ''string'') then
                   [stat001 mod_name ''.datainfo.members[1]''
                      ''status.members[1] must be a string definition'']
                 else
                   (case map_of member0 ''members'' of
                      Some (JDict enum_members) \<Rightarrow> status_codes mod_name m enum_members
                    | _ \<Rightarrow>
                      [stat001 mod_name ''.datainfo.members[0].members''
                         ''status enum members must be a dictionary''])
             | _ \<Rightarrow>
                 [stat001 mod_name ''.datainfo.members''
                    ''status must be tuple(enum,string) with exactly 2 members, as defined by the protocol'']))"

definition rule_status_structure_and_codes :: "SecNodeConfig \<Rightarrow> Finding list" where
  "rule_status_structure_and_codes = for_modules status_structure_and_codes_mod"

subsection \<open>R-ACC-001\<close>

definition rule_custom_command_accessibles_warn :: "SecNodeConfig \<Rightarrow> Finding list" where
  "rule_custom_command_accessibles_warn =
     for_modules (\<lambda>mod_name. for_accessibles (\<lambda>acc_name acc.
       if startswith acc_name ''_'' \<and> type_di (datainfo acc) = ''command'' then
         [(finding ''R-ACC-001'' WARNING (acc_path mod_name acc_name)
             [Lit (''Custom command accessible '' @ [CHR 0x27] @ acc_name @ [CHR 0x27]
                @ '' is not generated automatically; ''
                @ ''the generator will emit placeholders and the developer must implement it manually.'')])
          \<lparr> hint := Some [Lit ''Implement the command behaviour manually in the PLC project (or follow the demo patterns).''] \<rparr>]
       else []))"

subsection \<open>R-ACC-002\<close>

definition is_dict :: "Members option \<Rightarrow> bool" where
  "is_dict ms = (case ms of Some (MDict _) \<Rightarrow> True | _ \<Rightarrow> False)"

definition is_list :: "Members option \<Rightarrow> bool" where
  "is_list ms = (case ms of Some (MList _) \<Rightarrow> True | _ \<Rightarrow> False)"

definition acc002 :: "string \<Rightarrow> string \<Rightarrow> string \<Rightarrow> Finding" where
  "acc002 mod_name acc_name msg =
     finding ''R-ACC-002'' ERROR (acc_path mod_name acc_name @ ''.datainfo.members'') [Lit msg]"

definition rule_accessible_members_by_type :: "SecNodeConfig \<Rightarrow> Finding list" where
  "rule_accessible_members_by_type =
     for_modules (\<lambda>mod_name. for_accessibles (\<lambda>acc_name acc.
       let di = datainfo acc in
       if type_di di = ''enum'' then
         (if \<not> is_dict (members di) then
            [acc002 mod_name acc_name (''Invalid datainfo.members for type '' @ [CHR 0x27] @ ''enum''
               @ [CHR 0x27] @ '' (must be a dict).'')]
          else [])
       else if type_di di = ''tuple'' then
         (if \<not> is_list (members di) then
            [acc002 mod_name acc_name (''Invalid datainfo.members for type '' @ [CHR 0x27] @ ''tuple''
               @ [CHR 0x27] @ '' (must be a list).'')]
          else [])
       else if type_di di = ''array'' then
         (if \<not> is_dict (members di) then
            [acc002 mod_name acc_name (''Invalid datainfo.members for type '' @ [CHR 0x27] @ ''array''
               @ [CHR 0x27] @ '' (must be an object/dict).'')]
          else [])
       else []))"

subsection \<open>R-ACC-003\<close>

definition range_finding :: "string \<Rightarrow> string \<Rightarrow> Finding" where
  "range_finding mod_name acc_name =
     finding ''R-ACC-003'' ERROR (acc_path mod_name acc_name @ ''.datainfo'')
       [Lit ''Invalid numeric range: min must be < max.'']"

text \<open>
  \<^verbatim>\<open>di.min is not None and di.max is not None and di.min >= di.max\<close>
\<close>

definition range_incoherent :: "DataInfo \<Rightarrow> bool" where
  "range_incoherent di =
     (case min_di di of
        None \<Rightarrow> False
      | Some lo \<Rightarrow> (case max_di di of None \<Rightarrow> False | Some hi \<Rightarrow> float_ge lo hi))"

definition numeric_ranges_acc :: "string \<Rightarrow> string \<Rightarrow> Accessible \<Rightarrow> Finding list" where
  "numeric_ranges_acc mod_name acc_name acc =
     (if range_incoherent (datainfo acc) then [range_finding mod_name acc_name] else [])"

definition rule_numeric_ranges_coherent :: "SecNodeConfig \<Rightarrow> Finding list" where
  "rule_numeric_ranges_coherent =
     for_modules (\<lambda>mod_name. for_accessibles (numeric_ranges_acc mod_name))"

subsection \<open>R-ACC-004\<close>

definition target_limits_mod :: "string \<Rightarrow> Module \<Rightarrow> Finding list" where
  "target_limits_mod mod_name m =
     (case map_of (accessibles m) ''target'' of
        None \<Rightarrow> []
      | Some target \<Rightarrow>
         (case map_of (accessibles m) ''target_limits'' of
            None \<Rightarrow> []
          | Some limits \<Rightarrow>
              let target_di = datainfo target; limits_di = datainfo limits in
              (case (min_di target_di, min_di limits_di) of
                 (Some tmin, Some lmin) \<Rightarrow>
                   if float_lt lmin tmin then
                     [finding ''R-ACC-004'' ERROR (acc_path mod_name ''target_limits'' @ ''.datainfo'')
                        [Lit ''target_limits.min must be >= target.min (target_limits restricts target).'']]
                   else []
               | _ \<Rightarrow> [])
              @ (case (max_di target_di, max_di limits_di) of
                 (Some tmax, Some lmax) \<Rightarrow>
                   if float_gt lmax tmax then
                     [finding ''R-ACC-004'' ERROR (acc_path mod_name ''target_limits'' @ ''.datainfo'')
                        [Lit ''target_limits.max must be <= target.max (target_limits restricts target).'']]
                   else []
               | _ \<Rightarrow> [])))"

definition rule_target_limits_within_target :: "SecNodeConfig \<Rightarrow> Finding list" where
  "rule_target_limits_within_target = for_modules target_limits_mod"

subsection \<open>R-ACC-005, R-ACC-006\<close>

definition missing_or_not_positive :: "int option \<Rightarrow> bool" where
  "missing_or_not_positive n = (case n of None \<Rightarrow> True | Some k \<Rightarrow> k \<le> 0)"

definition rule_string_requires_maxchars :: "SecNodeConfig \<Rightarrow> Finding list" where
  "rule_string_requires_maxchars =
     for_modules (\<lambda>mod_name. for_accessibles (\<lambda>acc_name acc.
       let di = datainfo acc in
       if type_di di = ''string'' \<and> missing_or_not_positive (maxchars di) then
         [(finding ''R-ACC-005'' ERROR (acc_path mod_name acc_name @ ''.datainfo.maxchars'')
             [Lit (''datainfo.maxchars is required (>0) when datainfo.type == '' @ [CHR 0x27]
                @ ''string'' @ [CHR 0x27] @ ''.'')])
          \<lparr> hint := Some [Lit ''Set maxchars so the generator can declare a PLC STRING with a fixed length.''] \<rparr>]
       else []))"

definition rule_array_requires_maxlen :: "SecNodeConfig \<Rightarrow> Finding list" where
  "rule_array_requires_maxlen =
     for_modules (\<lambda>mod_name. for_accessibles (\<lambda>acc_name acc.
       let di = datainfo acc in
       if type_di di = ''array'' \<and> missing_or_not_positive (maxlen di) then
         [(finding ''R-ACC-006'' ERROR (acc_path mod_name acc_name @ ''.datainfo.maxlen'')
             [Lit (''datainfo.maxlen is required (>0) when datainfo.type == '' @ [CHR 0x27]
                @ ''array'' @ [CHR 0x27] @ ''.'')])
          \<lparr> hint := Some [Lit ''Set maxlen so the generator can declare a PLC ARRAY with a fixed length.''] \<rparr>]
       else []))"

subsection \<open>R-ACC-007\<close>

definition readonly_finding :: "string \<Rightarrow> string \<Rightarrow> string \<Rightarrow> Finding" where
  "readonly_finding mod_name acc_name want =
     finding ''R-ACC-007'' ERROR (acc_path mod_name acc_name @ ''.readonly'')
       [Lit (''Accessible '' @ [CHR 0x27] @ acc_name @ [CHR 0x27] @ '' must have readonly='' @ want @ ''.'')]"

definition readonly_policy_mod :: "string \<Rightarrow> Module \<Rightarrow> Finding list" where
  "readonly_policy_mod mod_name m =
     (case map_of (accessibles m) ''value'' of
        None \<Rightarrow> []
      | Some acc \<Rightarrow> if readonly acc \<noteq> True then [readonly_finding mod_name ''value'' ''true''] else [])
     @ (case map_of (accessibles m) ''status'' of
        None \<Rightarrow> []
      | Some acc \<Rightarrow> if readonly acc \<noteq> True then [readonly_finding mod_name ''status'' ''true''] else [])
     @ (case map_of (accessibles m) ''target'' of
        None \<Rightarrow> []
      | Some acc \<Rightarrow> if readonly acc \<noteq> False then [readonly_finding mod_name ''target'' ''false''] else [])"

definition rule_standard_accessible_readonly_policy :: "SecNodeConfig \<Rightarrow> Finding list" where
  "rule_standard_accessible_readonly_policy = for_modules readonly_policy_mod"

subsection \<open>R-ACC-008\<close>

definition type_match_finding :: "string \<Rightarrow> string \<Rightarrow> string \<Rightarrow> string \<Rightarrow> Finding" where
  "type_match_finding mod_name acc_name value_type other_type =
     (finding ''R-ACC-008'' ERROR (acc_path mod_name acc_name @ ''.datainfo.type'')
        [Lit (acc_name @ ''.datainfo.type must match value.datainfo.type'')])
     \<lparr> hint := Some [Lit (''value.type='' @ [CHR 0x27] @ value_type @ [CHR 0x27] @ '', '' @ acc_name
          @ ''.type='' @ [CHR 0x27] @ other_type @ [CHR 0x27])] \<rparr>"

definition target_type_matches_mod :: "string \<Rightarrow> Module \<Rightarrow> Finding list" where
  "target_type_matches_mod mod_name m =
     (if \<not> is_writable m then []
      else
        (case (map_of (accessibles m) ''value'', map_of (accessibles m) ''target'') of
           (Some v, Some t) \<Rightarrow>
             let value_type = strip (type_di (datainfo v));
                 target_type = strip (type_di (datainfo t))
             in
               (if target_type \<noteq> value_type then
                  [type_match_finding mod_name ''target'' value_type target_type]
                else [])
               @ (case map_of (accessibles m) ''target_limits'' of
                    None \<Rightarrow> []
                  | Some l \<Rightarrow>
                      let lim_type = strip (type_di (datainfo l)) in
                      if lim_type \<noteq> value_type then
                        [type_match_finding mod_name ''target_limits'' value_type lim_type]
                      else [])
         | _ \<Rightarrow> []))"

definition rule_target_datainfo_type_matches_value :: "SecNodeConfig \<Rightarrow> Finding list" where
  "rule_target_datainfo_type_matches_value = for_modules target_type_matches_mod"

subsection \<open>R-ACC-009\<close>

definition rule_checkable_requires_manual_plc :: "SecNodeConfig \<Rightarrow> Finding list" where
  "rule_checkable_requires_manual_plc =
     for_modules (\<lambda>mod_name. for_accessibles (\<lambda>acc_name acc.
       if checkable acc = Some True then
         [(finding ''R-ACC-009'' WARNING (acc_path mod_name acc_name @ ''.checkable'')
             [Lit ''checkable=true requires manual PLC implementation (generator will emit placeholders)''])
          \<lparr> category := Some ''implementation'', plc_refs := [''ST_Module_'' @ mod_name] \<rparr>]
       else []))"

subsection \<open>R-ACC-010\<close>

definition command_sub :: "string \<Rightarrow> string \<Rightarrow> string \<Rightarrow> DataInfo option \<Rightarrow> Finding list" where
  "command_sub mod_name acc_name sub_name sub =
     (case sub of
        None \<Rightarrow> []
      | Some s \<Rightarrow>
          let sub_type = strip (type_di s) in
          if sub_type = [] then
            [finding ''R-ACC-010'' ERROR
               (acc_path mod_name acc_name @ ''.datainfo.'' @ sub_name @ ''.type'')
               [Lit (''Invalid command datainfo: '' @ [CHR 0x27] @ sub_name @ [CHR 0x27]
                  @ '' must define '' @ [CHR 0x27] @ ''type'' @ [CHR 0x27] @ ''.'')]]
          else if sub_type \<notin> set ALLOWED_TYPES_THIS_CODEGEN then
            [(finding ''R-ACC-010'' ERROR
               (acc_path mod_name acc_name @ ''.datainfo.'' @ sub_name @ ''.type'')
               [Lit (''Invalid command datainfo: '' @ [CHR 0x27] @ sub_name
                  @ ''.type'' @ [CHR 0x27] @ '' is not supported on this PLC SEC node.'')])
             \<lparr> hint := Some [Lit ''Allowed types (this generator): '',
                                FStrs (sort ALLOWED_TYPES_THIS_CODEGEN)] \<rparr>]
          else [])"

definition rule_command_datainfo_shape :: "SecNodeConfig \<Rightarrow> Finding list" where
  "rule_command_datainfo_shape =
     for_modules (\<lambda>mod_name. for_accessibles (\<lambda>acc_name acc.
       let di = datainfo acc in
       if strip (type_di di) \<noteq> ''command'' then []
       else
         (if unit_di di \<noteq> None \<or> min_di di \<noteq> None \<or> max_di di \<noteq> None
             \<or> maxchars di \<noteq> None \<or> maxlen di \<noteq> None \<or> members di \<noteq> None then
            [finding ''R-ACC-010'' ERROR (acc_path mod_name acc_name @ ''.datainfo'')
               [Lit (''Invalid command datainfo: only '' @ [CHR 0x27] @ ''argument'' @ [CHR 0x27]
                  @ '' and/or '' @ [CHR 0x27] @ ''result'' @ [CHR 0x27]
                  @ '' are allowed as optional fields.'')]]
          else [])
         @ command_sub mod_name acc_name ''argument'' (argument di)
         @ command_sub mod_name acc_name ''result'' (result di)))"

subsection \<open>R-DI-001\<close>

definition rule_datainfo_type_supported :: "SecNodeConfig \<Rightarrow> Finding list" where
  "rule_datainfo_type_supported =
     for_modules (\<lambda>mod_name. for_accessibles (\<lambda>acc_name acc.
       let t = strip (type_di (datainfo acc)) in
       if t \<in> set PLC_UNSUPPORTED_TYPES then
         [(finding ''R-DI-001'' ERROR (acc_path mod_name acc_name @ ''.datainfo.type'')
             [Lit ''type not required/supported on current sec node plc version''])
          \<lparr> hint := Some [Lit ''Allowed types (this generator): '',
                             FStrs (sort ALLOWED_TYPES_THIS_CODEGEN)] \<rparr>]
       else if t \<notin> set PROTOCOL_TYPES then
         [(finding ''R-DI-001'' ERROR (acc_path mod_name acc_name @ ''.datainfo.type'')
             [Lit (''datainfo.type '' @ [CHR 0x27] @ t @ [CHR 0x27]
                @ '' is not defined by the SECoP protocol'')])
          \<lparr> hint := Some [Lit ''Allowed types (this generator): '',
                             FStrs (sort ALLOWED_TYPES_THIS_CODEGEN)] \<rparr>]
       else []))"

section \<open>rules/plc\_rules.py\<close>

text \<open>
  The tooling blocks are pydantic models, which define neither \<^verbatim>\<open>__bool__\<close> nor
  \<^verbatim>\<open>__len__\<close>: an instance is true, so \<^verbatim>\<open>if not xplc\<close> asks whether the block is
  \<^verbatim>\<open>None\<close>.
\<close>

definition IMPLEMENTATION_WARNING_SUFFIX :: string where
  "IMPLEMENTATION_WARNING_SUFFIX =
     ''Manual PLC implementation will be required. Refer to generated tasks list.''"

definition is_empty :: "string option \<Rightarrow> bool" where
  "is_empty v = (case v of None \<Rightarrow> True | Some s \<Rightarrow> strip s = [])"

definition is_drivable_classes :: "string list \<Rightarrow> bool" where
  "is_drivable_classes classes = (''Drivable'' \<in> set classes)"

definition status_enum_members :: "Module \<Rightarrow> (string, json) dict option" where
  "status_enum_members m =
     (case map_of (accessibles m) ''status'' of
        None \<Rightarrow> None
      | Some status \<Rightarrow>
          let di = datainfo status in
          if type_di di \<noteq> ''tuple'' then None
          else
            (case members di of
               Some (MList [m0, m1]) \<Rightarrow>
                 if map_of m0 ''type'' \<noteq> Some (JStr ''enum'') then None
                 else (case map_of m0 ''members'' of
                         Some (JDict enum_members) \<Rightarrow> Some enum_members
                       | _ \<Rightarrow> None)
             | _ \<Rightarrow> None))"

definition not_configured :: "string \<Rightarrow> string \<Rightarrow> string \<Rightarrow> string list \<Rightarrow> Finding" where
  "not_configured rid p field refs =
     (finding rid WARNING p
        [Lit (''The field '' @ field @ '' is not configured. '' @ IMPLEMENTATION_WARNING_SUFFIX)])
     \<lparr> category := Some ''implementation'', plc_refs := refs \<rparr>"

text \<open>\<^verbatim>\<open>for mod_name, mod in cfg.modules.items()\<close> with \<^verbatim>\<open>if not xplc: continue\<close>.\<close>

definition for_xplc_modules ::
  "(string \<Rightarrow> Module \<Rightarrow> PlcModuleConfig \<Rightarrow> Finding list) \<Rightarrow> SecNodeConfig \<Rightarrow> Finding list" where
  "for_xplc_modules body =
     for_modules (\<lambda>mod_name m.
       case x_plc_mod m of None \<Rightarrow> [] | Some xplc \<Rightarrow> body mod_name m xplc)"

subsection \<open>R-PLC-001\<close>

definition xplc_key_finding :: "string \<Rightarrow> string \<Rightarrow> string \<Rightarrow> Finding" where
  "xplc_key_finding mod_name x_key acc_key =
     (finding ''R-PLC-001'' ERROR (mod_path mod_name @ ''.x-plc.'' @ x_key)
        [Lit (''x-plc.'' @ x_key @ '' is present but the SECoP accessible '' @ [CHR 0x27] @ acc_key
           @ [CHR 0x27] @ '' is missing'')])
     \<lparr> hint := Some [Lit (''Either remove x-plc.'' @ x_key @ '' or add '' @ [CHR 0x27] @ acc_key
          @ [CHR 0x27] @ '' under modules.'' @ mod_name @ ''.accessibles.'')] \<rparr>"

definition xplc_keys_mod :: "string \<Rightarrow> Module \<Rightarrow> PlcModuleConfig \<Rightarrow> Finding list" where
  "xplc_keys_mod mod_name m xplc =
     concat (map (\<lambda>(x_key, present).
                if \<not> present then []
                else if \<not> has_key (accessibles m) x_key then [xplc_key_finding mod_name x_key x_key]
                else [])
       [(''value'', value_cfg xplc \<noteq> None),
        (''status'', status_cfg xplc \<noteq> None),
        (''target'', target_cfg xplc \<noteq> None),
        (''clear_errors'', clear_errors_cfg xplc \<noteq> None)])"

definition rule_xplc_keys_exist_in_secop_accessibles :: "SecNodeConfig \<Rightarrow> Finding list" where
  "rule_xplc_keys_exist_in_secop_accessibles = for_xplc_modules xplc_keys_mod"

subsection \<open>R-PLC-010\<close>

definition rule_xplc_node_fields_configured :: "SecNodeConfig \<Rightarrow> Finding list" where
  "rule_xplc_node_fields_configured cfg =
     (case x_plc cfg of
        None \<Rightarrow> []
      | Some xplc \<Rightarrow>
         (case tcp xplc of
            None \<Rightarrow> [not_configured ''R-PLC-010'' ''$.x-plc.tcp'' ''x-plc.tcp'' [''SecopInit'']]
          | Some t \<Rightarrow>
              (if is_empty (server_ip t) then
                 [not_configured ''R-PLC-010'' ''$.x-plc.tcp.server_ip'' ''x-plc.tcp.server_ip''
                    [''SecopInit'']]
               else [])
              @ (if server_port t = None then
                 [not_configured ''R-PLC-010'' ''$.x-plc.tcp.server_port'' ''x-plc.tcp.server_port''
                    [''SecopInit'']]
               else [])
              @ (if is_empty (interface_healthy_tag t) then
                 [not_configured ''R-PLC-010'' ''$.x-plc.tcp.interface_healthy_tag''
                    ''x-plc.tcp.interface_healthy_tag'' [''SecopMapFromPlc'']]
               else [])
              @ (if is_empty (secop_version xplc) then
                 [not_configured ''R-PLC-010'' ''$.x-plc.secop_version'' ''x-plc.secop_version''
                    [''SecopInit'']]
               else [])
              @ (if is_empty (plc_timestamp_tag xplc) then
                 [not_configured ''R-PLC-010'' ''$.x-plc.plc_timestamp_tag'' ''x-plc.plc_timestamp_tag''
                    [''SecopMapFromPlc'']]
               else [])))"

subsection \<open>R-PLC-020\<close>

definition rule_xplc_module_timestamp_tag_configured :: "SecNodeConfig \<Rightarrow> Finding list" where
  "rule_xplc_module_timestamp_tag_configured =
     for_xplc_modules (\<lambda>mod_name m xplc.
       if is_empty (timestamp_tag xplc) then
         [not_configured ''R-PLC-020'' (mod_path mod_name @ ''.x-plc.timestamp_tag'')
            ''x-plc.timestamp_tag'' [''SecopMapFromPlc'']]
       else [])"

subsection \<open>R-PLC-021\<close>

definition rule_xplc_status_hw_error_fields_configured :: "SecNodeConfig \<Rightarrow> Finding list" where
  "rule_xplc_status_hw_error_fields_configured =
     for_xplc_modules (\<lambda>mod_name m xplc.
       case status_cfg xplc of
         None \<Rightarrow> []
       | Some st \<Rightarrow>
           (if is_empty (hw_error_expr st) then
              [not_configured ''R-PLC-021'' (mod_path mod_name @ ''.x-plc.status.hw_error_expr'')
                 ''x-plc.status.hw_error_expr'' [''SecopMapFromPlc'']]
            else [])
           @ (if is_empty (hw_error_description st) then
              [not_configured ''R-PLC-021'' (mod_path mod_name @ ''.x-plc.status.hw_error_description'')
                 ''x-plc.status.hw_error_description'' [''SecopMapFromPlc'']]
            else []))"

subsection \<open>R-PLC-022, R-PLC-023\<close>

definition disabled_error :: "string \<Rightarrow> Finding" where
  "disabled_error mod_name =
     (finding ''R-PLC-022'' ERROR (mod_path mod_name @ ''.x-plc.status'')
        [Lit ''x-plc.status.disabled_* is present but status enum does not contain DISABLED:0.''])
     \<lparr> hint := Some [Lit ''Add DISABLED:0 to status enum members or remove x-plc.status.disabled_* fields.''] \<rparr>"

definition disabled_warning :: "string \<Rightarrow> string \<Rightarrow> Finding" where
  "disabled_warning mod_name field =
     (finding ''R-PLC-023'' WARNING (mod_path mod_name @ ''.x-plc.status.'' @ field)
        [Lit (''Status enum contains DISABLED:0, but x-plc.status.'' @ field @ '' is not configured. ''
           @ IMPLEMENTATION_WARNING_SUFFIX)])
     \<lparr> category := Some ''implementation'', plc_refs := [''SecopMapFromPlc''] \<rparr>"

text \<open>
  \<^verbatim>\<open>(_status_enum_members(mod) or {}).get("DISABLED") == 0\<close>
\<close>

definition status_has_disabled_0 :: "Module \<Rightarrow> bool" where
  "status_has_disabled_0 m =
     (case status_enum_members m of
        None \<Rightarrow> False
      | Some enum_members \<Rightarrow>
          (case map_of enum_members ''DISABLED'' of
             None \<Rightarrow> False
           | Some v \<Rightarrow> py_eq_int v 0))"

definition disabled_fields_status ::
  "string \<Rightarrow> Module \<Rightarrow> PlcStatusConfig \<Rightarrow> Finding list" where
  "disabled_fields_status mod_name m st =
     (let disabled_expr_present = \<not> is_empty (disabled_expr st);
          disabled_desc_present = \<not> is_empty (disabled_description st)
      in
        (if (disabled_expr_present \<or> disabled_desc_present) \<and> \<not> status_has_disabled_0 m then
           [disabled_error mod_name]
         else [])
        @ (if status_has_disabled_0 m then
             (if is_empty (disabled_expr st) then [disabled_warning mod_name ''disabled_expr''] else [])
             @ (if is_empty (disabled_description st) then
                  [disabled_warning mod_name ''disabled_description'']
                else [])
           else []))"

definition disabled_fields_mod :: "string \<Rightarrow> Module \<Rightarrow> Finding list" where
  "disabled_fields_mod mod_name m =
     (case x_plc_mod m of
        None \<Rightarrow> []
      | Some xplc \<Rightarrow>
          (case status_cfg xplc of
             None \<Rightarrow> []
           | Some st \<Rightarrow> disabled_fields_status mod_name m st))"

definition rule_xplc_status_disabled_fields_coherent :: "SecNodeConfig \<Rightarrow> Finding list" where
  "rule_xplc_status_disabled_fields_coherent = for_modules disabled_fields_mod"

subsection \<open>R-PLC-026\<close>

definition rule_xplc_target_change_possible_expr_configured :: "SecNodeConfig \<Rightarrow> Finding list" where
  "rule_xplc_target_change_possible_expr_configured =
     for_xplc_modules (\<lambda>mod_name m xplc.
       case target_cfg xplc of
         None \<Rightarrow> []
       | Some t \<Rightarrow>
           if is_empty (change_possible_expr t) then
             [not_configured ''R-PLC-026'' (mod_path mod_name @ ''.x-plc.target.change_possible_expr'')
                ''x-plc.target.change_possible_expr'' [''SecopMapFromPlc'']]
           else [])"

subsection \<open>R-PLC-024, R-PLC-025\<close>

definition reach_only_drivable :: "string \<Rightarrow> string \<Rightarrow> Finding" where
  "reach_only_drivable mod_name field =
     (finding ''R-PLC-024'' ERROR (mod_path mod_name @ ''.x-plc.target.'' @ field)
        [Lit (''x-plc.target.'' @ field @ '' is only allowed for Drivable modules.'')])
     \<lparr> hint := Some [Lit (''Remove '' @ field @ '' or change module interface_classes to Drivable.'')] \<rparr>"

definition target_type_of :: "Module \<Rightarrow> string" where
  "target_type_of m =
     (case map_of (accessibles m) ''target'' of
        None \<Rightarrow> []
      | Some acc \<Rightarrow> strip (type_di (datainfo acc)))"

definition rule_xplc_target_reach_fields :: "SecNodeConfig \<Rightarrow> Finding list" where
  "rule_xplc_target_reach_fields =
     for_xplc_modules (\<lambda>mod_name m xplc.
       case target_cfg xplc of
         None \<Rightarrow> []
       | Some t \<Rightarrow>
           let is_drv = is_drivable_classes (interface_classes m);
               target_type = target_type_of m
           in
             (if reach_timeout_s t \<noteq> None \<and> \<not> is_drv then
                [reach_only_drivable mod_name ''reach_timeout_s'']
              else [])
             @ (if reach_abs_tolerance t \<noteq> None \<and> \<not> is_drv then
                [reach_only_drivable mod_name ''reach_abs_tolerance'']
              else [])
             @ (if \<not> is_drv then []
                else
                  (if reach_timeout_s t = None then
                     [not_configured ''R-PLC-025'' (mod_path mod_name @ ''.x-plc.target.reach_timeout_s'')
                        ''x-plc.target.reach_timeout_s'' [''SecopInit'']]
                   else [])
                  @ (if target_type \<noteq> ''enum'' \<and> reach_abs_tolerance t = None then
                     [not_configured ''R-PLC-025''
                        (mod_path mod_name @ ''.x-plc.target.reach_abs_tolerance'')
                        ''x-plc.target.reach_abs_tolerance'' [''ST_Module_'' @ mod_name]]
                   else [])))"

subsection \<open>R-PLC-030, R-PLC-031\<close>

text \<open>\<^verbatim>\<open>bool(cfg and (cfg.field or "").strip())\<close> for an optional fragment.\<close>

definition has_text :: "'a option \<Rightarrow> ('a \<Rightarrow> string option) \<Rightarrow> bool" where
  "has_text frag field =
     (case frag of None \<Rightarrow> False | Some c \<Rightarrow> strip (or_empty (field c)) \<noteq> [])"

definition value_mapping_mod :: "string \<Rightarrow> Module \<Rightarrow> PlcModuleConfig \<Rightarrow> Finding list" where
  "value_mapping_mod mod_name m xplc =
     (case map_of (accessibles m) ''value'' of
        None \<Rightarrow> []
      | Some acc \<Rightarrow>
          let v_type = strip (type_di (datainfo acc));
              v_cfg = value_cfg xplc;
              has_read_expr = has_text v_cfg read_expr;
              has_enum_tag = has_text v_cfg enum_tag_value;
              has_enum_map =
                (case v_cfg of
                   None \<Rightarrow> False
                 | Some c \<Rightarrow> (case enum_member_map c of None \<Rightarrow> False | Some mp \<Rightarrow> mp \<noteq> []))
          in
            if v_type = ''enum'' then
              (if has_read_expr then
                 [(finding ''R-PLC-030'' ERROR (mod_path mod_name @ ''.x-plc.value.read_expr'')
                     [Lit ''Invalid x-plc.value: SECoP value is enum, so read_expr must not be defined.''])
                  \<lparr> hint := Some [Lit ''Use x-plc.value.enum_tag + x-plc.value.enum_member_map for enum values.''] \<rparr>]
               else [])
              @ (if \<not> (has_enum_tag \<and> has_enum_map) then
                 [(finding ''R-PLC-031'' WARNING (mod_path mod_name @ ''.x-plc.value'')
                     [Lit (''The field x-plc.value (enum mapping) is not configured. ''
                        @ IMPLEMENTATION_WARNING_SUFFIX)])
                  \<lparr> category := Some ''implementation'',
                    plc_refs := [''SecopMapFromPlc'', ''ET_Module_'' @ mod_name] \<rparr>]
               else [])
            else
              (if has_enum_tag \<or> has_enum_map then
                 [(finding ''R-PLC-030'' ERROR (mod_path mod_name @ ''.x-plc.value'')
                     [Lit (''Invalid x-plc.value: SECoP value is type '' @ [CHR 0x27] @ v_type
                        @ [CHR 0x27] @ '', so enum_tag/enum_member_map must not be defined.'')])
                  \<lparr> hint := Some [Lit ''Use x-plc.value.read_expr for non-enum values.''] \<rparr>]
               else [])
              @ (if \<not> has_read_expr then
                 [not_configured ''R-PLC-031'' (mod_path mod_name @ ''.x-plc.value.read_expr'')
                    ''x-plc.value.read_expr'' [''SecopMapFromPlc'']]
               else []))"

definition rule_xplc_value_mapping_by_type :: "SecNodeConfig \<Rightarrow> Finding list" where
  "rule_xplc_value_mapping_by_type = for_xplc_modules value_mapping_mod"

subsection \<open>R-PLC-032, R-PLC-033\<close>

definition write_stmt_on_enum :: "string \<Rightarrow> Finding" where
  "write_stmt_on_enum mod_name =
     (finding ''R-PLC-032'' ERROR (mod_path mod_name @ ''.x-plc.target.write_stmt'')
        [Lit ''Invalid x-plc.target: SECoP target is enum, so write_stmt must not be defined.''])
     \<lparr> hint := Some [Lit ''Use x-plc.target.enum_tag for enum targets.''] \<rparr>"

definition enum_tag_missing :: "string \<Rightarrow> Finding" where
  "enum_tag_missing mod_name =
     not_configured ''R-PLC-033'' (mod_path mod_name @ ''.x-plc.target.enum_tag'')
       ''x-plc.target.enum_tag'' [''SecopMapToPlc'']"

definition tolerance_on_enum :: "string \<Rightarrow> Finding" where
  "tolerance_on_enum mod_name =
     (finding ''R-PLC-032'' ERROR (mod_path mod_name @ ''.x-plc.target.reach_abs_tolerance'')
        [Lit ''Invalid x-plc.target.reach_abs_tolerance: enum targets must not use reach_abs_tolerance.''])
     \<lparr> hint := Some [Lit ''Remove reach_abs_tolerance for enum targets.''] \<rparr>"

definition enum_tag_on_non_enum :: "string \<Rightarrow> string \<Rightarrow> Finding" where
  "enum_tag_on_non_enum mod_name t_type =
     (finding ''R-PLC-032'' ERROR (mod_path mod_name @ ''.x-plc.target.enum_tag'')
        [Lit (''Invalid x-plc.target: SECoP target is type '' @ [CHR 0x27] @ t_type @ [CHR 0x27]
           @ '', so enum_tag must not be defined.'')])
     \<lparr> hint := Some [Lit ''Use x-plc.target.write_stmt for non-enum targets.''] \<rparr>"

definition write_stmt_missing :: "string \<Rightarrow> Finding" where
  "write_stmt_missing mod_name =
     not_configured ''R-PLC-033'' (mod_path mod_name @ ''.x-plc.target.write_stmt'')
       ''x-plc.target.write_stmt'' [''SecopMapToPlc'']"

definition has_tolerance :: "PlcTargetConfig option \<Rightarrow> bool" where
  "has_tolerance t_cfg =
     (case t_cfg of None \<Rightarrow> False | Some c \<Rightarrow> reach_abs_tolerance c \<noteq> None)"

definition target_mapping_mod :: "string \<Rightarrow> Module \<Rightarrow> PlcModuleConfig \<Rightarrow> Finding list" where
  "target_mapping_mod mod_name m xplc =
     (case map_of (accessibles m) ''target'' of
        None \<Rightarrow> []
      | Some acc \<Rightarrow>
          let t_type = strip (type_di (datainfo acc));
              t_cfg = target_cfg xplc;
              has_write_stmt = has_text t_cfg write_stmt;
              has_enum_tag = has_text t_cfg enum_tag
          in
            if t_type = ''enum'' then
              (if has_write_stmt then [write_stmt_on_enum mod_name] else [])
              @ (if \<not> has_enum_tag then [enum_tag_missing mod_name] else [])
              @ (if has_tolerance t_cfg then [tolerance_on_enum mod_name] else [])
            else
              (if has_enum_tag then [enum_tag_on_non_enum mod_name t_type] else [])
              @ (if \<not> has_write_stmt then [write_stmt_missing mod_name] else []))"

definition rule_xplc_target_mapping_by_type :: "SecNodeConfig \<Rightarrow> Finding list" where
  "rule_xplc_target_mapping_by_type = for_xplc_modules target_mapping_mod"

subsection \<open>R-PLC-040\<close>

definition clear_errors_finding :: "string \<Rightarrow> string \<Rightarrow> Finding" where
  "clear_errors_finding mod_name suffix =
     (finding ''R-PLC-040'' WARNING (mod_path mod_name @ ''.x-plc.clear_errors'' @ suffix)
        [Lit (''Missing PLC command statement for '' @ mod_name @ ''.clear_errors. ''
           @ ''The generator will clear SECoP ErrorReport only (by default). ''
           @ ''If you would like the command to perform an extra action, write it in cmd_stmt.'')])
     \<lparr> category := Some ''implementation'', plc_refs := [''SecopMapToPlc''] \<rparr>"

definition rule_xplc_clear_errors_cmd_stmt_optional :: "SecNodeConfig \<Rightarrow> Finding list" where
  "rule_xplc_clear_errors_cmd_stmt_optional =
     for_modules (\<lambda>mod_name m.
       if \<not> has_key (accessibles m) ''clear_errors'' then []
       else
         (case x_plc_mod m of
            None \<Rightarrow> [clear_errors_finding mod_name []]
          | Some xplc \<Rightarrow>
              (case clear_errors_cfg xplc of
                 None \<Rightarrow> [clear_errors_finding mod_name []]
               | Some ce \<Rightarrow>
                   if is_empty (cmd_stmt ce) then [clear_errors_finding mod_name ''.cmd_stmt'']
                   else [])))"

section \<open>validators/validate\_config.py: the orchestrator\<close>

text \<open>
  Every rule but R-CLS-004 returns a list whatever the configuration holds. An exception
  of R-CLS-004 leaves \<^verbatim>\<open>validate_config\<close> as it is raised: nothing catches it.
\<close>

definition validate_config :: "SecNodeConfig \<Rightarrow> py_error + Finding list" where
  "validate_config cfg =
     (case rule_forbidden_accessibles_by_class cfg of
        Inl e \<Rightarrow> Inl e
      | Inr forbidden \<Rightarrow>
          Inr (rule_non_empty_modules cfg
             @ rule_interface_classes_single cfg
             @ rule_features_and_offset_not_supported_on_plc cfg
             @ rule_required_accessibles cfg
             @ forbidden
             @ rule_custom_command_accessibles_warn cfg
             @ rule_accessible_members_by_type cfg
             @ rule_numeric_ranges_coherent cfg
             @ rule_target_limits_within_target cfg
             @ rule_string_requires_maxchars cfg
             @ rule_array_requires_maxlen cfg
             @ rule_standard_accessible_readonly_policy cfg
             @ rule_target_datainfo_type_matches_value cfg
             @ rule_checkable_requires_manual_plc cfg
             @ rule_command_datainfo_shape cfg
             @ rule_datainfo_type_supported cfg
             @ rule_status_structure_and_codes cfg
             @ rule_xplc_keys_exist_in_secop_accessibles cfg
             @ rule_xplc_node_fields_configured cfg
             @ rule_xplc_module_timestamp_tag_configured cfg
             @ rule_xplc_status_hw_error_fields_configured cfg
             @ rule_xplc_status_disabled_fields_coherent cfg
             @ rule_xplc_target_change_possible_expr_configured cfg
             @ rule_xplc_target_reach_fields cfg
             @ rule_xplc_value_mapping_by_type cfg
             @ rule_xplc_target_mapping_by_type cfg
             @ rule_xplc_clear_errors_cmd_stmt_optional cfg))"

section \<open>Sample configurations\<close>

definition plain_di :: "string \<Rightarrow> DataInfo" where
  "plain_di t = DataInfo t None None None None None None None None"

definition status_di :: "(string, json) dict \<Rightarrow> DataInfo" where
  "status_di enum_members =
     DataInfo ''tuple'' None None None None None
       (Some (MList [[(''type'', JStr ''enum''), (''members'', JDict enum_members)],
                     [(''type'', JStr ''string'')]]))
       None None"

definition sample_module ::
  "string list \<Rightarrow> (string, Accessible) dict \<Rightarrow> PlcModuleConfig option \<Rightarrow> Module" where
  "sample_module classes accs xplc =
     \<lparr> interface_classes = classes, features = [], description_mod = ''sample'',
       implementation = ''sample'', accessibles = accs, x_plc_mod = xplc \<rparr>"

definition sample_node :: "(string, Module) dict \<Rightarrow> PlcNodeConfig option \<Rightarrow> SecNodeConfig" where
  "sample_node mods xplc =
     \<lparr> equipment_id = ''sample'', description_node = ''sample'', firmware = ''sample'',
       modules = mods, x_plc = xplc \<rparr>"

text \<open>A Drivable module whose status enum lacks BUSY, has WARN at 201 and an extra label.\<close>

definition drive_enum :: "(string, json) dict" where
  "drive_enum = [(''IDLE'', JInt 100), (''WARN'', JInt 201), (''ERROR'', JInt 400), (''MOVING'', JInt 350)]"

definition drive_status :: Accessible where
  "drive_status = Accessible_init ''status'' (status_di drive_enum) (Some True) None"

definition drive_module :: Module where
  "drive_module = sample_module [''Drivable''] [(''status'', drive_status)] None"

definition drive_node :: SecNodeConfig where
  "drive_node = sample_node [(''mf'', drive_module)] None"

text \<open>A module whose \<open>interface_classes\<close> is the empty list, which the shape layer accepts.\<close>

definition no_class_module :: Module where
  "no_class_module = sample_module [] [] None"

definition no_class_node :: SecNodeConfig where
  "no_class_node = sample_node [(''m1'', no_class_module)] None"

text \<open>
  A module whose one tag is not a class of the protocol, with \<open>value\<close> and an accessible
  whose name starts with an underscore; alone on a node, and beside a module whose
  \<open>interface_classes\<close> is the empty list.
\<close>

definition sensor_module :: Module where
  "sensor_module =
     sample_module [''Sensor'']
       [(''value'', Accessible_init ''v'' (plain_di ''double'') (Some True) None),
        (''_raw'', Accessible_init ''r'' (plain_di ''double'') (Some True) None)]
       None"

definition sensor_node :: SecNodeConfig where
  "sensor_node = sample_node [(''m1'', sensor_module)] None"

definition mixed_node :: SecNodeConfig where
  "mixed_node = sample_node [(''m1'', sensor_module), (''m2'', no_class_module)] None"

text \<open>
  A Readable module with \<open>value\<close> (read-only, double), \<open>status\<close> (read-only, a tuple of
  the enum IDLE:100, WARN:200, ERROR:400 and a string) and \<open>pollinterval\<close>, and no tooling
  block, neither on the node nor on the module.
\<close>

definition readable_module :: Module where
  "readable_module =
     sample_module [''Readable'']
       [(''value'', Accessible_init ''value'' (plain_di ''double'') (Some True) None),
        (''status'', Accessible_init ''status''
           (status_di [(''IDLE'', JInt 100), (''WARN'', JInt 200), (''ERROR'', JInt 400)])
           (Some True) None),
        (''pollinterval'', Accessible_init ''pollinterval'' (plain_di ''double'') None None)]
       None"

definition readable_node :: SecNodeConfig where
  "readable_node = sample_node [(''m1'', readable_module)] None"

text \<open>A module whose status enum has DISABLED:0 and which has no tooling block.\<close>

definition disabled_module :: Module where
  "disabled_module =
     sample_module [''Readable'']
       [(''status'', Accessible_init ''status''
           (status_di [(''DISABLED'', JInt 0), (''IDLE'', JInt 100), (''WARN'', JInt 200),
                       (''ERROR'', JInt 400)])
           (Some True) None)]
       None"

definition disabled_node :: SecNodeConfig where
  "disabled_node = sample_node [(''m1'', disabled_module)] None"

text \<open>
  A Drivable module whose \<open>target\<close> is an enum and whose tooling block gives the target a
  \<open>write_stmt\<close> and no \<open>enum_tag\<close>.
\<close>

definition switch_xplc :: PlcModuleConfig where
  "switch_xplc =
     \<lparr> timestamp_tag = Some ''G_tStamp'', value_cfg = None, status_cfg = None,
       target_cfg = Some \<lparr> write_stmt = Some ''G_iCmd := 1;'', enum_tag = None,
                            change_possible_expr = None, reach_timeout_s = None,
                            reach_abs_tolerance = None \<rparr>,
       clear_errors_cfg = None \<rparr>"

definition switch_module :: Module where
  "switch_module =
     sample_module [''Drivable'']
       [(''target'', Accessible_init ''target''
           (DataInfo ''enum'' None None None None None (Some (MDict [(''off'', 0), (''on'', 1)])) None None)
           (Some False) None)]
       (Some switch_xplc)"

text \<open>
  A module whose status enum has no DISABLED member and whose tooling block gives a
  \<open>disabled_expr\<close>; and the same module with DISABLED:0 in the enum.
\<close>

definition disabled_status_cfg :: PlcStatusConfig where
  "disabled_status_cfg =
     \<lparr> disabled_expr = Some ''G_xDisabled'', disabled_description = Some [],
       hw_error_expr = Some [], hw_error_description = Some [] \<rparr>"

definition status_xplc :: PlcModuleConfig where
  "status_xplc =
     \<lparr> timestamp_tag = None, value_cfg = None, status_cfg = Some disabled_status_cfg,
       target_cfg = None, clear_errors_cfg = None \<rparr>"

definition tooled_module :: "(string, json) dict \<Rightarrow> Module" where
  "tooled_module enum_members =
     sample_module [''Readable'']
       [(''status'', Accessible_init ''status'' (status_di enum_members) (Some True) None)]
       (Some status_xplc)"

text \<open>
  The Readable module above with an empty tooling block, on a node with an empty tooling
  block; and a node whose tooling block has a \<open>tcp\<close> fragment.
\<close>

definition empty_module_xplc :: PlcModuleConfig where
  "empty_module_xplc =
     \<lparr> timestamp_tag = None, value_cfg = None, status_cfg = None, target_cfg = None,
       clear_errors_cfg = None \<rparr>"

definition empty_node_xplc :: PlcNodeConfig where
  "empty_node_xplc = \<lparr> tcp = None, secop_version = None, plc_timestamp_tag = None \<rparr>"

definition tooled_readable_module :: Module where
  "tooled_readable_module = readable_module \<lparr> x_plc_mod := Some empty_module_xplc \<rparr>"

definition tooled_readable_node :: SecNodeConfig where
  "tooled_readable_node = sample_node [(''m1'', tooled_readable_module)] (Some empty_node_xplc)"



section \<open>The blocking decision\<close>

text \<open>
  C4. The blocking boolean \<open>has_errors\<close> is true exactly when some finding has severity
  ERROR, which is exactly when the error count of the report is not zero; a list that
  holds only WARNINGs, however many, does not block.
\<close>

theorem has_errors_iff_error_finding:
  "(has_errors fs \<longleftrightarrow> (\<exists>f \<in> set fs. severity f = ERROR))
   \<and> (has_errors fs \<longleftrightarrow> fst (build_report_summary fs) \<noteq> 0)
   \<and> ((\<forall>f \<in> set fs. severity f = WARNING) \<longrightarrow> \<not> has_errors fs)"
proof -
  have a: "has_errors fs \<longleftrightarrow> (\<exists>f \<in> set fs. severity f = ERROR)"
    by (simp add: has_errors_def list_ex_iff)
  have b: "fst (build_report_summary fs) \<noteq> 0 \<longleftrightarrow> (\<exists>f \<in> set fs. severity f = ERROR)"
    by (auto simp: build_report_summary_def filter_empty_conv)
  have c: "(\<forall>f \<in> set fs. severity f = WARNING) \<longrightarrow> \<not> has_errors fs"
    using a by auto
  from a b c show ?thesis by blast
qed

theorem has_errors_iff_error_finding_witness:
  "\<not> has_errors [finding ''R-PLC-020'' WARNING ''$'' [], finding ''R-PLC-010'' WARNING ''$'' []]
   \<and> has_errors [finding ''R-PLC-020'' WARNING ''$'' [], finding ''R-NODE-001'' ERROR ''$'' []]"
  using has_errors_iff_error_finding
    [of "[finding ''R-PLC-020'' WARNING ''$'' [], finding ''R-PLC-010'' WARNING ''$'' []]"]
    has_errors_iff_error_finding
    [of "[finding ''R-PLC-020'' WARNING ''$'' [], finding ''R-NODE-001'' ERROR ''$'' []]"]
  by (simp add: finding_def)

section \<open>Iteration over modules\<close>

lemma for_modules_subset:
  "(mod_name, m) \<in> set (modules cfg) \<Longrightarrow> set (body mod_name m) \<subseteq> set (for_modules body cfg)"
  by (auto simp: for_modules_def)

lemma for_accessibles_set:
  "set (for_accessibles body m) = (\<Union>(acc_name, acc) \<in> set (accessibles m). set (body acc_name acc))"
  by (auto simp: for_accessibles_def)

lemma for_modules_set:
  "set (for_modules body cfg) = (\<Union>(mod_name, m) \<in> set (modules cfg). set (body mod_name m))"
  by (auto simp: for_modules_def)

lemma strip_Nil: "strip [] = []"
  by (simp add: strip_def)

lemma has_text_iff:
  "has_text frag field \<longleftrightarrow> (\<exists>c. frag = Some c \<and> \<not> is_empty (field c))"
  by (auto simp: has_text_def is_empty_def or_empty_def strip_Nil split: option.splits)

lemma for_xplc_modules_subset:
  "(mod_name, m) \<in> set (modules cfg) \<Longrightarrow> x_plc_mod m = Some xplc
   \<Longrightarrow> set (body mod_name m xplc) \<subseteq> set (for_xplc_modules body cfg)"
  unfolding for_xplc_modules_def
  using for_modules_subset[of mod_name m cfg
      "\<lambda>mod_name m. case x_plc_mod m of None \<Rightarrow> [] | Some xplc \<Rightarrow> body mod_name m xplc"]
  by simp

lemma strip_enum: "strip ''enum'' = ''enum''"
  by (simp add: strip_def is_space_def)

section \<open>Status codes\<close>

lemma status_mod_is_status_codes:
  assumes "map_of (accessibles m) ''status'' = Some st"
    and "type_di (datainfo st) = ''tuple''"
    and "members (datainfo st) = Some (MList [member0, member1])"
    and "map_of member0 ''type'' = Some (JStr ''enum'')"
    and "map_of member1 ''type'' = Some (JStr ''string'')"
    and "map_of member0 ''members'' = Some (JDict enum_members)"
  shows "status_structure_and_codes_mod mod_name m = status_codes mod_name m enum_members"
  using assms by (simp add: status_structure_and_codes_mod_def)

lemma expected_missing:
  "(key, code) \<in> set (expected_codes m) \<Longrightarrow> map_of em key = None
   \<Longrightarrow> required_finding n key code \<in> set (status_codes n m em)"
  by (force simp: status_codes_def check_expected_def)

lemma expected_wrong:
  "(key, code) \<in> set (expected_codes m) \<Longrightarrow> map_of em key = Some v \<Longrightarrow> \<not> py_eq_int v code
   \<Longrightarrow> wrong_code_finding n key code v \<in> set (status_codes n m em)"
  by (force simp: status_codes_def check_expected_def)

lemma busy_forbidden:
  "\<not> is_drivable m \<Longrightarrow> has_key em ''BUSY'' \<Longrightarrow> busy_forbidden_finding n \<in> set (status_codes n m em)"
  by (simp add: status_codes_def)

lemma disabled_wrong:
  "map_of em ''DISABLED'' = Some v \<Longrightarrow> \<not> py_eq_int v 0
   \<Longrightarrow> disabled_code_finding n v \<in> set (status_codes n m em)"
  by (simp add: status_codes_def)

lemma check_expected_errors:
  "filter (\<lambda>f. severity f = WARNING) (check_expected n em ke) = []"
  by (cases ke) (auto simp: check_expected_def required_finding_def wrong_code_finding_def finding_def split: option.splits)

lemma concat_check_expected_no_warning:
  "filter (\<lambda>f. severity f = WARNING) (concat (map (check_expected n em) kes)) = []"
  by (induction kes) (simp_all add: check_expected_errors)

lemma extra_keys_nonempty:
  "extra_keys em \<noteq> [] \<longleftrightarrow> (\<exists>k \<in> set (map fst em). k \<notin> set allowed_status_keys)"
proof -
  have "extra_keys em \<noteq> [] \<longleftrightarrow> set (extra_keys em) \<noteq> {}" by simp
  also have "\<dots> \<longleftrightarrow> (\<exists>k \<in> set (map fst em). k \<notin> set allowed_status_keys)"
    unfolding extra_keys_def by (auto simp del: set_empty)
  finally show ?thesis .
qed

lemma warnings_count:
  "length (filter (\<lambda>f. severity f = WARNING) (status_codes n m em))
   = (if \<exists>k \<in> set (map fst em). k \<notin> set allowed_status_keys then 1 else 0)"
  using extra_keys_nonempty[of em]
  by (auto simp: status_codes_def concat_check_expected_no_warning busy_forbidden_finding_def
      disabled_code_finding_def extra_finding_def finding_def split: option.splits)

lemma map_of_filter_keys:
  "P key \<Longrightarrow> map_of (filter (\<lambda>kv. P (fst kv)) em) key = map_of em key"
  by (induction em) auto

lemma expected_keys_allowed:
  "(key, code) \<in> set (expected_codes m) \<Longrightarrow> key \<in> set allowed_status_keys"
  by (auto simp: expected_codes_def base_required_def allowed_status_keys_def split: if_splits)

lemma check_expected_restrict:
  assumes "ke \<in> set (expected_codes m)"
  shows "check_expected n (filter (\<lambda>kv. fst kv \<in> set allowed_status_keys) em) ke = check_expected n em ke"
proof -
  obtain key code where ke: "ke = (key, code)" by (cases ke)
  with assms have "key \<in> set allowed_status_keys" using expected_keys_allowed by blast
  then have "map_of (filter (\<lambda>kv. fst kv \<in> set allowed_status_keys) em) key = map_of em key"
    by (rule map_of_filter_keys)
  then show ?thesis by (simp add: check_expected_def ke)
qed

lemma extra_keys_restrict:
  "extra_keys (filter (\<lambda>kv. fst kv \<in> set allowed_status_keys) em) = []"
proof -
  have "set (extra_keys (filter (\<lambda>kv. fst kv \<in> set allowed_status_keys) em)) = {}"
    unfolding extra_keys_def by (auto simp del: set_empty)
  then show ?thesis by simp
qed

lemma errors_ignore_extra:
  "filter (\<lambda>f. severity f = ERROR) (status_codes n m em)
   = status_codes n m (filter (\<lambda>kv. fst kv \<in> set allowed_status_keys) em)"
proof -
  let ?em' = "filter (\<lambda>kv. fst kv \<in> set allowed_status_keys) em"
  have a: "map (check_expected n ?em') (expected_codes m) = map (check_expected n em) (expected_codes m)"
    by (rule map_cong[OF refl]) (rule check_expected_restrict)
  have b: "map_of ?em' ''BUSY'' = map_of em ''BUSY''"
    by (rule map_of_filter_keys) (simp add: allowed_status_keys_def)
  have c: "map_of ?em' ''DISABLED'' = map_of em ''DISABLED''"
    by (rule map_of_filter_keys) (simp add: allowed_status_keys_def)
  have d: "filter (\<lambda>f. severity f = ERROR) (concat (map (check_expected n em) (expected_codes m)))
           = concat (map (check_expected n em) (expected_codes m))"
  proof -
    have "\<forall>f \<in> set (concat (map (check_expected n em) (expected_codes m))). severity f = ERROR"
      by (auto simp: check_expected_def required_finding_def wrong_code_finding_def finding_def
          split: option.splits if_splits)
    then show ?thesis by simp
  qed
  show ?thesis
    unfolding status_codes_def extra_keys_restrict a has_key_def b c
    by (simp add: d busy_forbidden_finding_def disabled_code_finding_def extra_finding_def
        finding_def split: option.splits)
qed

lemma drive_facts:
  "(''mf'', drive_module) \<in> set (modules drive_node)"
  "map_of (accessibles drive_module) ''status'' = Some drive_status"
  "type_di (datainfo drive_status) = ''tuple''"
  "members (datainfo drive_status) =
     Some (MList [[(''type'', JStr ''enum''), (''members'', JDict drive_enum)], [(''type'', JStr ''string'')]])"
  "map_of [(''type'', JStr ''enum''), (''members'', JDict drive_enum)] ''type'' = Some (JStr ''enum'')"
  "map_of [(''type'', JStr ''string'')] ''type'' = Some (JStr ''string'')"
  "map_of [(''type'', JStr ''enum''), (''members'', JDict drive_enum)] ''members'' = Some (JDict drive_enum)"
  by (simp_all add: drive_node_def sample_node_def drive_module_def sample_module_def
      drive_status_def Accessible_init_def status_di_def)

text \<open>
  C1. Let a module of the configuration have a \<open>status\<close> accessible whose datainfo is a
  tuple of an enum fragment and a string fragment, the enum's members being \<open>enum_members\<close>.
  The findings of the status rule for the module are findings of the rule, and among them:
  for each of IDLE:100, WARN:200, ERROR:400 an ERROR when the label is missing and an ERROR
  when it is mapped to a value that Python's \<open>==\<close> does not equate with the code; the
  same for BUSY:300 when the module is Drivable; an ERROR for the presence of BUSY when the
  module is not Drivable; an ERROR when DISABLED is present with a value other than 0. The
  labels outside DISABLED, IDLE, WARN, BUSY, ERROR yield exactly one WARNING when there is
  at least one of them and none otherwise, and never an ERROR: the ERRORs are exactly the
  findings for the enum with those labels removed.
\<close>

theorem status_codes_by_exact_value:
  assumes "(mod_name, m) \<in> set (modules cfg)"
    and "map_of (accessibles m) ''status'' = Some st"
    and "type_di (datainfo st) = ''tuple''"
    and "members (datainfo st) = Some (MList [member0, member1])"
    and "map_of member0 ''type'' = Some (JStr ''enum'')"
    and "map_of member1 ''type'' = Some (JStr ''string'')"
    and "map_of member0 ''members'' = Some (JDict enum_members)"
  shows
    "set (status_structure_and_codes_mod mod_name m) \<subseteq> set (rule_status_structure_and_codes cfg)
     \<and> (\<forall>(key, code) \<in> set [(''IDLE'', 100), (''WARN'', 200), (''ERROR'', 400)].
           (map_of enum_members key = None
              \<longrightarrow> required_finding mod_name key code \<in> set (status_structure_and_codes_mod mod_name m))
         \<and> (\<forall>v. map_of enum_members key = Some v \<and> \<not> py_eq_int v code
              \<longrightarrow> wrong_code_finding mod_name key code v \<in> set (status_structure_and_codes_mod mod_name m)))
     \<and> (is_drivable m \<longrightarrow>
           (map_of enum_members ''BUSY'' = None
              \<longrightarrow> required_finding mod_name ''BUSY'' 300 \<in> set (status_structure_and_codes_mod mod_name m))
         \<and> (\<forall>v. map_of enum_members ''BUSY'' = Some v \<and> \<not> py_eq_int v 300
              \<longrightarrow> wrong_code_finding mod_name ''BUSY'' 300 v \<in> set (status_structure_and_codes_mod mod_name m)))
     \<and> (\<not> is_drivable m \<and> map_of enum_members ''BUSY'' \<noteq> None
           \<longrightarrow> busy_forbidden_finding mod_name \<in> set (status_structure_and_codes_mod mod_name m))
     \<and> (\<forall>v. map_of enum_members ''DISABLED'' = Some v \<and> \<not> py_eq_int v 0
           \<longrightarrow> disabled_code_finding mod_name v \<in> set (status_structure_and_codes_mod mod_name m))
     \<and> (\<forall>key code v. severity (required_finding mod_name key code) = ERROR
           \<and> severity (wrong_code_finding mod_name key code v) = ERROR
           \<and> severity (busy_forbidden_finding mod_name) = ERROR
           \<and> severity (disabled_code_finding mod_name v) = ERROR)
     \<and> length (filter (\<lambda>f. severity f = WARNING) (status_structure_and_codes_mod mod_name m))
         = (if \<exists>k \<in> set (map fst enum_members). k \<notin> set allowed_status_keys then 1 else 0)
     \<and> filter (\<lambda>f. severity f = ERROR) (status_structure_and_codes_mod mod_name m)
         = status_codes mod_name m (filter (\<lambda>kv. fst kv \<in> set allowed_status_keys) enum_members)"
proof -
  have eq: "status_structure_and_codes_mod mod_name m = status_codes mod_name m enum_members"
    using assms(2-7) by (rule status_mod_is_status_codes)
  have sub: "set (status_structure_and_codes_mod mod_name m) \<subseteq> set (rule_status_structure_and_codes cfg)"
    unfolding rule_status_structure_and_codes_def using assms(1) by (rule for_modules_subset)
  have base: "\<And>key code. (key, code) \<in> set [(''IDLE'', 100), (''WARN'', 200), (''ERROR'', 400)]
      \<Longrightarrow> (key, code) \<in> set (expected_codes m)"
    by (auto simp: expected_codes_def base_required_def)
  have busy: "is_drivable m \<Longrightarrow> (''BUSY'', 300) \<in> set (expected_codes m)"
    by (simp add: expected_codes_def)
  have c2: "\<forall>(key, code) \<in> set [(''IDLE'', 100), (''WARN'', 200), (''ERROR'', 400)].
           (map_of enum_members key = None
              \<longrightarrow> required_finding mod_name key code \<in> set (status_structure_and_codes_mod mod_name m))
         \<and> (\<forall>v. map_of enum_members key = Some v \<and> \<not> py_eq_int v code
              \<longrightarrow> wrong_code_finding mod_name key code v \<in> set (status_structure_and_codes_mod mod_name m))"
    unfolding eq using base expected_missing expected_wrong by blast
  have c3: "is_drivable m \<longrightarrow>
           (map_of enum_members ''BUSY'' = None
              \<longrightarrow> required_finding mod_name ''BUSY'' 300 \<in> set (status_structure_and_codes_mod mod_name m))
         \<and> (\<forall>v. map_of enum_members ''BUSY'' = Some v \<and> \<not> py_eq_int v 300
              \<longrightarrow> wrong_code_finding mod_name ''BUSY'' 300 v \<in> set (status_structure_and_codes_mod mod_name m))"
    unfolding eq using busy expected_missing expected_wrong by blast
  have c4: "\<not> is_drivable m \<and> map_of enum_members ''BUSY'' \<noteq> None
           \<longrightarrow> busy_forbidden_finding mod_name \<in> set (status_structure_and_codes_mod mod_name m)"
    unfolding eq using busy_forbidden by (simp add: has_key_def)
  have c5: "\<forall>v. map_of enum_members ''DISABLED'' = Some v \<and> \<not> py_eq_int v 0
           \<longrightarrow> disabled_code_finding mod_name v \<in> set (status_structure_and_codes_mod mod_name m)"
    unfolding eq using disabled_wrong by blast
  have c6: "\<forall>key code v. severity (required_finding mod_name key code) = ERROR
           \<and> severity (wrong_code_finding mod_name key code v) = ERROR
           \<and> severity (busy_forbidden_finding mod_name) = ERROR
           \<and> severity (disabled_code_finding mod_name v) = ERROR"
    by (simp add: required_finding_def wrong_code_finding_def busy_forbidden_finding_def
        disabled_code_finding_def finding_def)
  have c7: "length (filter (\<lambda>f. severity f = WARNING) (status_structure_and_codes_mod mod_name m))
         = (if \<exists>k \<in> set (map fst enum_members). k \<notin> set allowed_status_keys then 1 else 0)"
    unfolding eq by (rule warnings_count)
  have c8: "filter (\<lambda>f. severity f = ERROR) (status_structure_and_codes_mod mod_name m)
         = status_codes mod_name m (filter (\<lambda>kv. fst kv \<in> set allowed_status_keys) enum_members)"
    unfolding eq by (rule errors_ignore_extra)
  from sub c2 c3 c4 c5 c6 c7 c8 show ?thesis by (intro conjI)
qed

theorem status_codes_by_exact_value_witness:
  "required_finding ''mf'' ''BUSY'' 300 \<in> set (rule_status_structure_and_codes drive_node)
   \<and> wrong_code_finding ''mf'' ''WARN'' 200 (JInt 201) \<in> set (rule_status_structure_and_codes drive_node)
   \<and> length (filter (\<lambda>f. severity f = WARNING) (status_structure_and_codes_mod ''mf'' drive_module)) = 1
   \<and> filter (\<lambda>f. severity f = ERROR) (status_structure_and_codes_mod ''mf'' drive_module)
       = [wrong_code_finding ''mf'' ''WARN'' 200 (JInt 201), required_finding ''mf'' ''BUSY'' 300]"
proof -
  note t = status_codes_by_exact_value[OF drive_facts]
  have drv: "is_drivable drive_module"
    by (simp add: is_drivable_def has_class_def drive_module_def sample_module_def)
  have a: "required_finding ''mf'' ''BUSY'' 300 \<in> set (status_structure_and_codes_mod ''mf'' drive_module)"
    using t drv by (simp add: drive_enum_def)
  have b: "wrong_code_finding ''mf'' ''WARN'' 200 (JInt 201) \<in> set (status_structure_and_codes_mod ''mf'' drive_module)"
    using t by (simp add: drive_enum_def)
  have c: "length (filter (\<lambda>f. severity f = WARNING) (status_structure_and_codes_mod ''mf'' drive_module)) = 1"
    using t by (simp add: drive_enum_def allowed_status_keys_def)
  have d: "filter (\<lambda>f. severity f = ERROR) (status_structure_and_codes_mod ''mf'' drive_module)
       = [wrong_code_finding ''mf'' ''WARN'' 200 (JInt 201), required_finding ''mf'' ''BUSY'' 300]"
    using t drv by (simp add: drive_enum_def allowed_status_keys_def status_codes_def check_expected_def
        expected_codes_def base_required_def extra_keys_def has_key_def)
  from t a b c d show ?thesis by blast
qed

section \<open>Numeric ranges\<close>

lemma float_lt_not_ge: "float_lt lo hi \<Longrightarrow> \<not> float_ge lo hi"
  by (cases lo; cases hi) auto

lemma range_incoherent_iff:
  "range_incoherent di \<longleftrightarrow> (\<exists>lo hi. min_di di = Some lo \<and> max_di di = Some hi \<and> float_ge lo hi)"
  by (auto simp: range_incoherent_def split: option.splits)

text \<open>
  C8. For one accessible, the range rule yields its single ERROR finding (R-ACC-003) exactly
  when both \<open>min\<close> and \<open>max\<close> are present and \<open>min >= max\<close> as Python compares floats,
  and nothing otherwise: equal bounds are an ERROR; an absent bound, or \<open>min < max\<close>, gives
  no finding. The findings of the rule are those of the accessibles of the modules.
\<close>

theorem numeric_range_strict:
  "(numeric_ranges_acc mod_name acc_name acc = [range_finding mod_name acc_name]
      \<longleftrightarrow> (\<exists>lo hi. min_di (datainfo acc) = Some lo \<and> max_di (datainfo acc) = Some hi \<and> float_ge lo hi))
   \<and> (numeric_ranges_acc mod_name acc_name acc = []
      \<longleftrightarrow> \<not> (\<exists>lo hi. min_di (datainfo acc) = Some lo \<and> max_di (datainfo acc) = Some hi \<and> float_ge lo hi))
   \<and> severity (range_finding mod_name acc_name) = ERROR
   \<and> rule_id (range_finding mod_name acc_name) = ''R-ACC-003''
   \<and> (\<forall>x y. float_ge (Fin x) (Fin y) = (y \<le> x))
   \<and> (\<forall>x. min_di (datainfo acc) = Some (Fin x) \<and> max_di (datainfo acc) = Some (Fin x)
        \<longrightarrow> numeric_ranges_acc mod_name acc_name acc = [range_finding mod_name acc_name])
   \<and> (min_di (datainfo acc) = None \<or> max_di (datainfo acc) = None
        \<longrightarrow> numeric_ranges_acc mod_name acc_name acc = [])
   \<and> (\<forall>lo hi. min_di (datainfo acc) = Some lo \<and> max_di (datainfo acc) = Some hi \<and> float_lt lo hi
        \<longrightarrow> numeric_ranges_acc mod_name acc_name acc = [])
   \<and> set (rule_numeric_ranges_coherent cfg)
       = {range_finding mn an | mn m an a.
            (mn, m) \<in> set (modules cfg) \<and> (an, a) \<in> set (accessibles m) \<and> range_incoherent (datainfo a)}"
proof -
  have a: "numeric_ranges_acc mod_name acc_name acc = [range_finding mod_name acc_name]
      \<longleftrightarrow> (\<exists>lo hi. min_di (datainfo acc) = Some lo \<and> max_di (datainfo acc) = Some hi \<and> float_ge lo hi)"
    by (simp add: numeric_ranges_acc_def range_incoherent_iff)
  have b: "numeric_ranges_acc mod_name acc_name acc = []
      \<longleftrightarrow> \<not> (\<exists>lo hi. min_di (datainfo acc) = Some lo \<and> max_di (datainfo acc) = Some hi \<and> float_ge lo hi)"
    by (simp add: numeric_ranges_acc_def range_incoherent_iff)
  have c: "severity (range_finding mod_name acc_name) = ERROR"
    "rule_id (range_finding mod_name acc_name) = ''R-ACC-003''"
    by (simp_all add: range_finding_def finding_def)
  have d: "\<forall>x y. float_ge (Fin x) (Fin y) = (y \<le> x)" by simp
  have e: "\<forall>x. min_di (datainfo acc) = Some (Fin x) \<and> max_di (datainfo acc) = Some (Fin x)
        \<longrightarrow> numeric_ranges_acc mod_name acc_name acc = [range_finding mod_name acc_name]"
    by (simp add: numeric_ranges_acc_def range_incoherent_def)
  have f: "min_di (datainfo acc) = None \<or> max_di (datainfo acc) = None
        \<longrightarrow> numeric_ranges_acc mod_name acc_name acc = []"
    by (auto simp: numeric_ranges_acc_def range_incoherent_def split: option.splits)
  have g: "\<forall>lo hi. min_di (datainfo acc) = Some lo \<and> max_di (datainfo acc) = Some hi \<and> float_lt lo hi
        \<longrightarrow> numeric_ranges_acc mod_name acc_name acc = []"
    by (auto simp: numeric_ranges_acc_def range_incoherent_def dest: float_lt_not_ge)
  have h: "set (rule_numeric_ranges_coherent cfg)
       = {range_finding mn an | mn m an a.
            (mn, m) \<in> set (modules cfg) \<and> (an, a) \<in> set (accessibles m) \<and> range_incoherent (datainfo a)}"
    unfolding rule_numeric_ranges_coherent_def for_modules_set for_accessibles_set
    by (fastforce simp: numeric_ranges_acc_def split: if_splits)
  from a b c d e f g h show ?thesis by (intro conjI)
qed

theorem numeric_range_strict_witness:
  "numeric_ranges_acc ''m1'' ''value''
     (Accessible_init ''v'' (DataInfo ''double'' None (Some (Fin 1)) (Some (Fin 1)) None None None None None) None None)
     = [range_finding ''m1'' ''value'']
   \<and> numeric_ranges_acc ''m1'' ''value''
     (Accessible_init ''v'' (DataInfo ''double'' None (Some (Fin 0)) (Some (Fin 1)) None None None None None) None None)
     = []
   \<and> numeric_ranges_acc ''m1'' ''value''
     (Accessible_init ''v'' (DataInfo ''double'' None (Some (Fin 2)) None None None None None None) None None)
     = []"
  using numeric_range_strict[of "''m1''" "''value''"
      "Accessible_init ''v'' (DataInfo ''double'' None (Some (Fin 1)) (Some (Fin 1)) None None None None None) None None"]
    numeric_range_strict[of "''m1''" "''value''"
      "Accessible_init ''v'' (DataInfo ''double'' None (Some (Fin 0)) (Some (Fin 1)) None None None None None) None None"]
    numeric_range_strict[of "''m1''" "''value''"
      "Accessible_init ''v'' (DataInfo ''double'' None (Some (Fin 2)) None None None None None None) None None"]
  by (simp add: Accessible_init_def)

section \<open>Required accessibles\<close>

lemma missing_readable_set:
  "set (missing_readable m)
   = {k \<in> {''value'', ''status'', ''pollinterval''}. \<not> has_key (accessibles m) k}"
  by (auto simp: missing_readable_def)

lemma cls_distinct:
  "cls001 n ms \<noteq> cls002 n" "cls001 n ms \<noteq> cls003 n" "cls002 n \<noteq> cls003 n"
  by (simp_all add: cls001_def cls002_def cls003_def finding_def)

lemma cls001_inj: "cls001 n ms = cls001 n ms' \<longleftrightarrow> ms = ms'"
  by (simp add: cls001_def finding_def)

text \<open>
  C5. Drivable implies Writable implies Readable, a module being Readable when it is tagged
  Readable, Writable or Drivable. For a Readable module the rule yields the R-CLS-001 ERROR,
  whose hint lists the missing names, exactly when one of value, status, pollinterval is
  missing; for a Writable module the R-CLS-002 ERROR exactly when target is missing; for a
  Drivable module the R-CLS-003 ERROR exactly when stop is missing. The rule yields nothing
  exactly when every name of the required set of the module is present.
\<close>

theorem required_accessibles_by_capability:
  "(is_drivable m \<longrightarrow> is_writable m) \<and> (is_writable m \<longrightarrow> is_readable m)
   \<and> (is_readable m \<longleftrightarrow> (\<exists>c \<in> {''Readable'', ''Writable'', ''Drivable''}. c \<in> set (interface_classes m)))
   \<and> (is_writable m \<longleftrightarrow> (\<exists>c \<in> {''Writable'', ''Drivable''}. c \<in> set (interface_classes m)))
   \<and> (is_drivable m \<longleftrightarrow> ''Drivable'' \<in> set (interface_classes m))
   \<and> set (missing_readable m)
       = {k \<in> {''value'', ''status'', ''pollinterval''}. \<not> has_key (accessibles m) k}
   \<and> (cls001 mod_name (missing_readable m) \<in> set (required_accessibles_mod mod_name m)
        \<longleftrightarrow> is_readable m
            \<and> (\<exists>k \<in> {''value'', ''status'', ''pollinterval''}. \<not> has_key (accessibles m) k))
   \<and> (cls002 mod_name \<in> set (required_accessibles_mod mod_name m)
        \<longleftrightarrow> is_writable m \<and> \<not> has_key (accessibles m) ''target'')
   \<and> (cls003 mod_name \<in> set (required_accessibles_mod mod_name m)
        \<longleftrightarrow> is_drivable m \<and> \<not> has_key (accessibles m) ''stop'')
   \<and> (required_accessibles_mod mod_name m = []
        \<longleftrightarrow> (\<forall>k \<in> required_accessibles_for_module m. has_key (accessibles m) k))
   \<and> (\<forall>f \<in> set (required_accessibles_mod mod_name m). severity f = ERROR)
   \<and> hint (cls001 mod_name (missing_readable m)) = Some [Lit ''Missing: '', FStrs (missing_readable m)]
   \<and> ((mod_name, m) \<in> set (modules cfg)
        \<longrightarrow> set (required_accessibles_mod mod_name m) \<subseteq> set (rule_required_accessibles cfg))"
proof -
  have lat: "(is_drivable m \<longrightarrow> is_writable m) \<and> (is_writable m \<longrightarrow> is_readable m)"
    by (simp add: is_writable_def is_readable_def)
  have r: "is_readable m \<longleftrightarrow> (\<exists>c \<in> {''Readable'', ''Writable'', ''Drivable''}. c \<in> set (interface_classes m))"
    by (auto simp: is_readable_def is_writable_def is_drivable_def has_class_def)
  have w: "is_writable m \<longleftrightarrow> (\<exists>c \<in> {''Writable'', ''Drivable''}. c \<in> set (interface_classes m))"
    by (auto simp: is_writable_def is_drivable_def has_class_def)
  have d: "is_drivable m \<longleftrightarrow> ''Drivable'' \<in> set (interface_classes m)"
    by (simp add: is_drivable_def has_class_def)
  note ms = missing_readable_set[of m]
  have ne: "missing_readable m \<noteq> []
     \<longleftrightarrow> (\<exists>k \<in> {''value'', ''status'', ''pollinterval''}. \<not> has_key (accessibles m) k)"
  proof -
    have "missing_readable m \<noteq> [] \<longleftrightarrow> set (missing_readable m) \<noteq> {}" by simp
    then show ?thesis unfolding ms by blast
  qed
  have c1: "cls001 mod_name (missing_readable m) \<in> set (required_accessibles_mod mod_name m)
        \<longleftrightarrow> is_readable m
            \<and> (\<exists>k \<in> {''value'', ''status'', ''pollinterval''}. \<not> has_key (accessibles m) k)"
    unfolding ne[symmetric] by (simp add: required_accessibles_mod_def cls_distinct)
  have c2: "cls002 mod_name \<in> set (required_accessibles_mod mod_name m)
        \<longleftrightarrow> is_writable m \<and> \<not> has_key (accessibles m) ''target''"
    by (auto simp: required_accessibles_mod_def cls_distinct cls_distinct[symmetric])
  have c3: "cls003 mod_name \<in> set (required_accessibles_mod mod_name m)
        \<longleftrightarrow> is_drivable m \<and> \<not> has_key (accessibles m) ''stop''"
    by (auto simp: required_accessibles_mod_def cls_distinct cls_distinct[symmetric])
  have e: "required_accessibles_mod mod_name m = []
        \<longleftrightarrow> (\<forall>k \<in> required_accessibles_for_module m. has_key (accessibles m) k)"
    using ne by (auto simp: required_accessibles_mod_def required_accessibles_for_module_def)
  have s: "\<forall>f \<in> set (required_accessibles_mod mod_name m). severity f = ERROR"
    by (auto simp: required_accessibles_mod_def cls001_def cls002_def cls003_def finding_def)
  have h: "hint (cls001 mod_name (missing_readable m)) = Some [Lit ''Missing: '', FStrs (missing_readable m)]"
    by (simp add: cls001_def)
  have sub: "(mod_name, m) \<in> set (modules cfg)
        \<longrightarrow> set (required_accessibles_mod mod_name m) \<subseteq> set (rule_required_accessibles cfg)"
    unfolding rule_required_accessibles_def using for_modules_subset by blast
  from lat r w d ms c1 c2 c3 e s h sub show ?thesis by (intro conjI) blast+
qed

theorem required_accessibles_by_capability_witness:
  "set (missing_readable (sample_module [''Drivable''] [(''value'', Accessible_init ''v'' (plain_di ''double'') (Some True) None)] None))
     = {''status'', ''pollinterval''}
   \<and> cls002 ''m1'' \<in> set (required_accessibles_mod ''m1''
        (sample_module [''Drivable''] [(''value'', Accessible_init ''v'' (plain_di ''double'') (Some True) None)] None))
   \<and> cls003 ''m1'' \<in> set (required_accessibles_mod ''m1''
        (sample_module [''Drivable''] [(''value'', Accessible_init ''v'' (plain_di ''double'') (Some True) None)] None))
   \<and> required_accessibles_mod ''m1'' readable_module = []"
  using required_accessibles_by_capability[of
      "sample_module [''Drivable''] [(''value'', Accessible_init ''v'' (plain_di ''double'') (Some True) None)] None"
      "''m1''" readable_node]
    required_accessibles_by_capability[of readable_module "''m1''" readable_node]
  by (auto simp: sample_module_def has_key_def readable_module_def required_accessibles_for_module_def
      is_readable_def is_writable_def is_drivable_def has_class_def)

section \<open>Forbidden accessibles\<close>

lemma forbidden_loop_raises:
  "(\<exists>(n, m) \<in> set ms. interface_classes m = []) \<longleftrightarrow> forbidden_accessibles_loop ms acc = Inl IndexError"
proof (induction ms arbitrary: acc)
  case Nil
  then show ?case by simp
next
  case (Cons a ms)
  obtain n m where a: "a = (n, m)" by (cases a)
  show ?case
  proof (cases "interface_classes m")
    case Nil
    then show ?thesis by (simp add: a forbidden_accessibles_mod_def)
  next
    case (Cons c cs)
    then obtain g where "forbidden_accessibles_mod n m = Inr g"
      by (simp add: forbidden_accessibles_mod_def)
    with Cons Cons.IH[of "acc @ g"] show ?thesis by (simp add: a)
  qed
qed

lemma forbidden_loop_returns:
  "(\<forall>(n, m) \<in> set ms. interface_classes m \<noteq> []) \<Longrightarrow> \<exists>fs. forbidden_accessibles_loop ms acc = Inr fs"
proof -
  assume h: "\<forall>(n, m) \<in> set ms. interface_classes m \<noteq> []"
  obtain r where r: "forbidden_accessibles_loop ms acc = r" by simp
  show ?thesis
  proof (cases r)
    case (Inl e)
    then have "forbidden_accessibles_loop ms acc = Inl IndexError"
      using r by (cases e) simp
    with forbidden_loop_raises[of ms acc] h show ?thesis by blast
  next
    case (Inr fs)
    with r show ?thesis by simp
  qed
qed

lemma forbidden_loop_acc:
  "forbidden_accessibles_loop ms acc = Inr fs \<Longrightarrow> set acc \<subseteq> set fs"
proof (induction ms arbitrary: acc)
  case Nil
  then show ?case by simp
next
  case (Cons a ms)
  obtain n m where a: "a = (n, m)" by (cases a)
  from Cons.prems obtain g where g: "forbidden_accessibles_mod n m = Inr g"
    and rest: "forbidden_accessibles_loop ms (acc @ g) = Inr fs"
    by (auto simp: a split: sum.splits)
  from Cons.IH[OF rest] show ?case by simp
qed

lemma forbidden_loop_subset:
  "forbidden_accessibles_loop ms acc = Inr fs \<Longrightarrow> (n, m) \<in> set ms
   \<Longrightarrow> forbidden_accessibles_mod n m = Inr g \<Longrightarrow> set g \<subseteq> set fs"
proof (induction ms arbitrary: acc)
  case Nil
  then show ?case by simp
next
  case (Cons a ms)
  obtain n' m' where a: "a = (n', m')" by (cases a)
  from Cons.prems(1) obtain g' where g': "forbidden_accessibles_mod n' m' = Inr g'"
    and rest: "forbidden_accessibles_loop ms (acc @ g') = Inr fs"
    by (auto simp: a split: sum.splits)
  show ?case
  proof (cases "(n, m) = (n', m')")
    case True
    with g' Cons.prems(3) have "g = g'" by simp
    with forbidden_loop_acc[OF rest] show ?thesis by simp
  next
    case False
    with Cons.prems(2) a have "(n, m) \<in> set ms" by auto
    from Cons.IH[OF rest this Cons.prems(3)] show ?thesis .
  qed
qed

lemma unknown_class_mod:
  assumes "interface_classes m = [cls]" and "cls \<notin> {''Readable'', ''Writable'', ''Drivable''}"
  shows "forbidden_accessibles_mod mod_name m
     = Inr (map (forbidden_finding mod_name cls)
              (filter (\<lambda>acc. \<not> startswith acc ''_'') (map fst (accessibles m))))"
proof -
  have al: "map_of allowed_by_class cls = None"
    using assms(2) by (simp add: allowed_by_class_def)
  have "concat (map (\<lambda>acc. if startswith acc ''_'' then []
                           else if acc \<notin> set [] then [forbidden_finding mod_name cls acc] else []) xs)
      = map (forbidden_finding mod_name cls) (filter (\<lambda>acc. \<not> startswith acc ''_'') xs)" for xs
    by (induction xs) simp_all
  then show ?thesis
    by (simp add: forbidden_accessibles_mod_def assms(1) al del: map_map)
qed

text \<open>
  On a configuration where every module has at least one tag, the forbidden-accessibles
  rule returns, and its findings hold an R-CLS-004 finding for every accessible, of a module
  whose one tag is unrecognized, whose name does not start with an underscore.
\<close>

lemma unknown_class_rule_findings:
  assumes mem: "(mod_name, m) \<in> set (modules cfg)"
    and one: "interface_classes m = [cls]"
    and unk: "cls \<notin> {''Readable'', ''Writable'', ''Drivable''}"
    and tot: "\<forall>(n, m') \<in> set (modules cfg). interface_classes m' \<noteq> []"
  shows "\<exists>fs. rule_forbidden_accessibles_by_class cfg = Inr fs
           \<and> (\<forall>acc \<in> set (map fst (accessibles m)). \<not> startswith acc ''_''
                 \<longrightarrow> forbidden_finding mod_name cls acc \<in> set fs)"
proof -
  from forbidden_loop_returns[OF tot, of "[]"]
  obtain fs where fs: "forbidden_accessibles_loop (modules cfg) [] = Inr fs" by blast
  note eq = unknown_class_mod[OF one unk, of mod_name]
  from forbidden_loop_subset[OF fs mem eq]
  have "\<forall>acc \<in> set (map fst (accessibles m)). \<not> startswith acc ''_''
                 \<longrightarrow> forbidden_finding mod_name cls acc \<in> set fs" by auto
  with fs show ?thesis by (simp add: rule_forbidden_accessibles_by_class_def)
qed

text \<open>
  C9. The claim that, for every module whose \<open>interface_classes\<close> is one unrecognized tag,
  the forbidden-accessibles rule emits an R-CLS-004 ERROR for every accessible whose name
  does not start with an underscore fails on the code. Alone on a node, the module tagged
  \<open>Sensor\<close> gets the R-CLS-004 ERROR for \<open>value\<close> and none for \<open>_raw\<close>; beside a module
  whose \<open>interface_classes\<close> is the empty list, the rule raises \<open>IndexError\<close> at
  \<^verbatim>\<open>mod.interface_classes[0]\<close> and emits no finding at all, and \<open>validate_config\<close> raises
  with it, while R-MOD-001 reports both modules.
\<close>

theorem unknown_class_findings_lost_on_raise:
  "interface_classes sensor_module = [''Sensor'']
   \<and> map fst (accessibles sensor_module) = [''value'', ''_raw'']
   \<and> forbidden_accessibles_mod ''m1'' sensor_module
       = Inr [forbidden_finding ''m1'' ''Sensor'' ''value'']
   \<and> rule_forbidden_accessibles_by_class sensor_node
       = Inr [forbidden_finding ''m1'' ''Sensor'' ''value'']
   \<and> modules mixed_node = [(''m1'', sensor_module), (''m2'', no_class_module)]
   \<and> rule_forbidden_accessibles_by_class mixed_node = Inl IndexError
   \<and> validate_config mixed_node = Inl IndexError
   \<and> rule_interface_classes_single mixed_node
       = [invalid_class_finding ''m1'' ''Sensor'', not_single_finding ''m2'']"
proof -
  have a: "interface_classes sensor_module = [''Sensor'']"
    "map fst (accessibles sensor_module) = [''value'', ''_raw'']"
    by (simp_all add: sensor_module_def sample_module_def)
  have b: "forbidden_accessibles_mod ''m1'' sensor_module
       = Inr [forbidden_finding ''m1'' ''Sensor'' ''value'']"
    using unknown_class_mod[of sensor_module "''Sensor''" "''m1''"] a
    by (simp add: startswith_def)
  have c: "rule_forbidden_accessibles_by_class sensor_node
       = Inr [forbidden_finding ''m1'' ''Sensor'' ''value'']"
    by (simp add: rule_forbidden_accessibles_by_class_def sensor_node_def sample_node_def b)
  have d: "modules mixed_node = [(''m1'', sensor_module), (''m2'', no_class_module)]"
    by (simp add: mixed_node_def sample_node_def)
  have nc: "forbidden_accessibles_mod ''m2'' no_class_module = Inl IndexError"
    by (simp add: forbidden_accessibles_mod_def no_class_module_def sample_module_def)
  have e: "rule_forbidden_accessibles_by_class mixed_node = Inl IndexError"
    by (simp add: rule_forbidden_accessibles_by_class_def d b nc)
  have f: "validate_config mixed_node = Inl IndexError"
    using e by (simp add: validate_config_def)
  have g: "rule_interface_classes_single mixed_node
       = [invalid_class_finding ''m1'' ''Sensor'', not_single_finding ''m2'']"
    by (simp add: rule_interface_classes_single_def for_modules_def d
        interface_classes_single_mod_def a no_class_module_def sample_module_def)
  from a b c d e f g show ?thesis by (intro conjI)
qed

section \<open>Readonly policy\<close>

lemma readonly_paths_differ:
  "acc_path n ''value'' @ ''.readonly'' \<noteq> acc_path n ''target'' @ ''.readonly''"
  "acc_path n ''status'' @ ''.readonly'' \<noteq> acc_path n ''target'' @ ''.readonly''"
  by (simp_all add: acc_path_def)

text \<open>
  C10. An accessible built without \<open>readonly\<close> is the accessible built with
  \<open>readonly = False\<close>. As \<open>value\<close> or as \<open>status\<close> of a module it therefore receives
  the R-ACC-007 ERROR; as \<open>target\<close> it receives no finding of the readonly policy.
\<close>

theorem readonly_default_policy:
  "Accessible_init d di None ck = Accessible_init d di (Some False) ck
   \<and> readonly (Accessible_init d di None ck) = False
   \<and> (map_of (accessibles m) ''value'' = Some (Accessible_init d di None ck)
        \<longrightarrow> readonly_finding mod_name ''value'' ''true'' \<in> set (readonly_policy_mod mod_name m))
   \<and> (map_of (accessibles m) ''status'' = Some (Accessible_init d di None ck)
        \<longrightarrow> readonly_finding mod_name ''status'' ''true'' \<in> set (readonly_policy_mod mod_name m))
   \<and> (map_of (accessibles m) ''target'' = Some (Accessible_init d di None ck)
        \<longrightarrow> (\<forall>f \<in> set (readonly_policy_mod mod_name m).
               path f \<noteq> acc_path mod_name ''target'' @ ''.readonly''))
   \<and> (\<forall>acc_name want. severity (readonly_finding mod_name acc_name want) = ERROR
        \<and> rule_id (readonly_finding mod_name acc_name want) = ''R-ACC-007''
        \<and> path (readonly_finding mod_name acc_name want) = acc_path mod_name acc_name @ ''.readonly'')
   \<and> ((mod_name, m) \<in> set (modules cfg)
        \<longrightarrow> set (readonly_policy_mod mod_name m)
            \<subseteq> set (rule_standard_accessible_readonly_policy cfg))"
proof -
  have a: "Accessible_init d di None ck = Accessible_init d di (Some False) ck"
    "readonly (Accessible_init d di None ck) = False"
    by (simp_all add: Accessible_init_def)
  have v: "map_of (accessibles m) ''value'' = Some (Accessible_init d di None ck)
        \<longrightarrow> readonly_finding mod_name ''value'' ''true'' \<in> set (readonly_policy_mod mod_name m)"
    by (simp add: readonly_policy_mod_def a(2))
  have s: "map_of (accessibles m) ''status'' = Some (Accessible_init d di None ck)
        \<longrightarrow> readonly_finding mod_name ''status'' ''true'' \<in> set (readonly_policy_mod mod_name m)"
    by (simp add: readonly_policy_mod_def a(2))
  have p: "\<forall>acc_name want. severity (readonly_finding mod_name acc_name want) = ERROR
        \<and> rule_id (readonly_finding mod_name acc_name want) = ''R-ACC-007''
        \<and> path (readonly_finding mod_name acc_name want) = acc_path mod_name acc_name @ ''.readonly''"
    by (simp add: readonly_finding_def finding_def)
  have t: "map_of (accessibles m) ''target'' = Some (Accessible_init d di None ck)
        \<longrightarrow> (\<forall>f \<in> set (readonly_policy_mod mod_name m).
               path f \<noteq> acc_path mod_name ''target'' @ ''.readonly'')"
    using readonly_paths_differ[of mod_name] p
    by (auto simp: readonly_policy_mod_def a(2) split: option.splits if_splits)
  have r: "(mod_name, m) \<in> set (modules cfg)
        \<longrightarrow> set (readonly_policy_mod mod_name m)
            \<subseteq> set (rule_standard_accessible_readonly_policy cfg)"
    unfolding rule_standard_accessible_readonly_policy_def using for_modules_subset by blast
  from a v s t p r show ?thesis by (intro conjI)
qed

theorem readonly_default_policy_witness:
  "readonly_policy_mod ''m1''
     (sample_module [''Writable'']
        [(''value'', Accessible_init ''v'' (plain_di ''double'') None None),
         (''target'', Accessible_init ''v'' (plain_di ''double'') None None)] None)
   = [readonly_finding ''m1'' ''value'' ''true'']"
proof -
  let ?m = "sample_module [''Writable'']
        [(''value'', Accessible_init ''v'' (plain_di ''double'') None None),
         (''target'', Accessible_init ''v'' (plain_di ''double'') None None)] None"
  note t = readonly_default_policy[of "''v''" "plain_di ''double''" None ?m "''m1''" readable_node]
  have "readonly_finding ''m1'' ''value'' ''true'' \<in> set (readonly_policy_mod ''m1'' ?m)"
    using t by (simp add: sample_module_def Accessible_init_def)
  then show ?thesis
    by (simp add: readonly_policy_mod_def sample_module_def Accessible_init_def)
qed

section \<open>Totality\<close>

lemma validate_config_raises_iff:
  "validate_config cfg = Inl IndexError \<longleftrightarrow> (\<exists>(n, m) \<in> set (modules cfg). interface_classes m = [])"
proof -
  have "validate_config cfg = Inl IndexError
      \<longleftrightarrow> rule_forbidden_accessibles_by_class cfg = Inl IndexError"
    by (cases "rule_forbidden_accessibles_by_class cfg") (auto simp: validate_config_def)
  then show ?thesis
    using forbidden_loop_raises[of "modules cfg" "[]"]
    by (simp add: rule_forbidden_accessibles_by_class_def)
qed

text \<open>
  C2. The claim that every rule, and \<open>validate_config\<close>, returns a finding list on every
  configuration of the shape layer, one with an empty \<open>interface_classes\<close> included, fails
  on the code: on the node whose one module has \<open>interface_classes = []\<close>, R-CLS-004 raises
  \<open>IndexError\<close> and so does \<open>validate_config\<close>, although R-MOD-001 reports the empty list
  as a finding.
\<close>

theorem validate_config_raises_on_empty_classes:
  "validate_config no_class_node = Inl IndexError
   \<and> rule_forbidden_accessibles_by_class no_class_node = Inl IndexError
   \<and> rule_interface_classes_single no_class_node = [not_single_finding ''m1'']"
proof -
  have "\<exists>(n, m) \<in> set (modules no_class_node). interface_classes m = []"
    by (simp add: no_class_node_def sample_node_def no_class_module_def sample_module_def)
  then have a: "validate_config no_class_node = Inl IndexError"
    using validate_config_raises_iff by blast
  have b: "rule_forbidden_accessibles_by_class no_class_node = Inl IndexError"
    by (simp add: rule_forbidden_accessibles_by_class_def no_class_node_def sample_node_def
        no_class_module_def sample_module_def forbidden_accessibles_mod_def)
  have c: "rule_interface_classes_single no_class_node = [not_single_finding ''m1'']"
    by (simp add: rule_interface_classes_single_def for_modules_def no_class_node_def sample_node_def
        no_class_module_def sample_module_def interface_classes_single_mod_def)
  from a b c show ?thesis by (intro conjI)
qed

section \<open>Tooling mapping of the target\<close>

lemma target_mapping_enum:
  assumes "map_of (accessibles m) ''target'' = Some acc"
    and "strip (type_di (datainfo acc)) = ''enum''"
  shows "target_mapping_mod mod_name m xplc
     = (if has_text (target_cfg xplc) write_stmt then [write_stmt_on_enum mod_name] else [])
       @ (if \<not> has_text (target_cfg xplc) enum_tag then [enum_tag_missing mod_name] else [])
       @ (if has_tolerance (target_cfg xplc) then [tolerance_on_enum mod_name] else [])"
  using assms by (simp add: target_mapping_mod_def Let_def)

lemma target_mapping_non_enum:
  assumes "map_of (accessibles m) ''target'' = Some acc"
    and "strip (type_di (datainfo acc)) \<noteq> ''enum''"
  shows "target_mapping_mod mod_name m xplc
     = (if has_text (target_cfg xplc) enum_tag
        then [enum_tag_on_non_enum mod_name (strip (type_di (datainfo acc)))] else [])
       @ (if \<not> has_text (target_cfg xplc) write_stmt then [write_stmt_missing mod_name] else [])"
  using assms by (simp add: target_mapping_mod_def Let_def)

lemma target_findings:
  "severity (write_stmt_on_enum n) = ERROR" "path (write_stmt_on_enum n) = mod_path n @ ''.x-plc.target.write_stmt''"
  "severity (enum_tag_missing n) = WARNING" "path (enum_tag_missing n) = mod_path n @ ''.x-plc.target.enum_tag''"
  "severity (tolerance_on_enum n) = ERROR" "path (tolerance_on_enum n) = mod_path n @ ''.x-plc.target.reach_abs_tolerance''"
  "severity (enum_tag_on_non_enum n t) = ERROR" "path (enum_tag_on_non_enum n t) = mod_path n @ ''.x-plc.target.enum_tag''"
  "severity (write_stmt_missing n) = WARNING" "path (write_stmt_missing n) = mod_path n @ ''.x-plc.target.write_stmt''"
  "rule_id (write_stmt_on_enum n) = ''R-PLC-032''" "rule_id (enum_tag_missing n) = ''R-PLC-033''"
  "rule_id (tolerance_on_enum n) = ''R-PLC-032''" "rule_id (enum_tag_on_non_enum n t) = ''R-PLC-032''"
  "rule_id (write_stmt_missing n) = ''R-PLC-033''"
  by (simp_all add: write_stmt_on_enum_def enum_tag_missing_def tolerance_on_enum_def
      enum_tag_on_non_enum_def write_stmt_missing_def not_configured_def finding_def)

text \<open>
  C6. Let a module have a tooling block and a \<open>target\<close> accessible; the rule reads the
  type of the target with surrounding whitespace removed, and a tooling text is empty when
  it is absent or blank (\<open>is_empty\<close>). When the type is \<open>enum\<close>: a non-empty \<open>write_stmt\<close>
  yields exactly one finding on the write_stmt path, the R-PLC-032 ERROR; an absent or empty
  \<open>enum_tag\<close> yields exactly one WARNING, R-PLC-033; a present \<open>reach_abs_tolerance\<close> yields
  an ERROR. When the type is not \<open>enum\<close>: a non-empty \<open>enum_tag\<close> yields an ERROR, and an
  absent or empty \<open>write_stmt\<close> yields exactly one WARNING.
\<close>

theorem target_mapping_by_type:
  assumes "x_plc_mod m = Some xplc" and "map_of (accessibles m) ''target'' = Some acc"
  shows
    "(type_di (datainfo acc) = ''enum'' \<longrightarrow> strip (type_di (datainfo acc)) = ''enum'')
     \<and> (strip (type_di (datainfo acc)) = ''enum'' \<longrightarrow>
          ((\<exists>c. target_cfg xplc = Some c \<and> \<not> is_empty (write_stmt c))
             \<longrightarrow> filter (\<lambda>f. path f = mod_path mod_name @ ''.x-plc.target.write_stmt'')
                   (target_mapping_mod mod_name m xplc) = [write_stmt_on_enum mod_name])
        \<and> (\<not> (\<exists>c. target_cfg xplc = Some c \<and> \<not> is_empty (enum_tag c))
             \<longrightarrow> filter (\<lambda>f. severity f = WARNING) (target_mapping_mod mod_name m xplc)
                   = [enum_tag_missing mod_name])
        \<and> ((\<exists>c. target_cfg xplc = Some c \<and> reach_abs_tolerance c \<noteq> None)
             \<longrightarrow> tolerance_on_enum mod_name \<in> set (target_mapping_mod mod_name m xplc)))
     \<and> (strip (type_di (datainfo acc)) \<noteq> ''enum'' \<longrightarrow>
          ((\<exists>c. target_cfg xplc = Some c \<and> \<not> is_empty (enum_tag c))
             \<longrightarrow> enum_tag_on_non_enum mod_name (strip (type_di (datainfo acc)))
                   \<in> set (target_mapping_mod mod_name m xplc))
        \<and> (\<not> (\<exists>c. target_cfg xplc = Some c \<and> \<not> is_empty (write_stmt c))
             \<longrightarrow> filter (\<lambda>f. severity f = WARNING) (target_mapping_mod mod_name m xplc)
                   = [write_stmt_missing mod_name]))
     \<and> severity (write_stmt_on_enum mod_name) = ERROR
     \<and> severity (enum_tag_missing mod_name) = WARNING
     \<and> severity (tolerance_on_enum mod_name) = ERROR
     \<and> (\<forall>t. severity (enum_tag_on_non_enum mod_name t) = ERROR)
     \<and> severity (write_stmt_missing mod_name) = WARNING
     \<and> ((mod_name, m) \<in> set (modules cfg)
          \<longrightarrow> set (target_mapping_mod mod_name m xplc) \<subseteq> set (rule_xplc_target_mapping_by_type cfg))"
proof -
  have a: "type_di (datainfo acc) = ''enum'' \<longrightarrow> strip (type_di (datainfo acc)) = ''enum''"
    by (simp add: strip_enum)
  have e: "strip (type_di (datainfo acc)) = ''enum'' \<longrightarrow>
          ((\<exists>c. target_cfg xplc = Some c \<and> \<not> is_empty (write_stmt c))
             \<longrightarrow> filter (\<lambda>f. path f = mod_path mod_name @ ''.x-plc.target.write_stmt'')
                   (target_mapping_mod mod_name m xplc) = [write_stmt_on_enum mod_name])
        \<and> (\<not> (\<exists>c. target_cfg xplc = Some c \<and> \<not> is_empty (enum_tag c))
             \<longrightarrow> filter (\<lambda>f. severity f = WARNING) (target_mapping_mod mod_name m xplc)
                   = [enum_tag_missing mod_name])
        \<and> ((\<exists>c. target_cfg xplc = Some c \<and> reach_abs_tolerance c \<noteq> None)
             \<longrightarrow> tolerance_on_enum mod_name \<in> set (target_mapping_mod mod_name m xplc))"
  proof
    assume en: "strip (type_di (datainfo acc)) = ''enum''"
    note eq = target_mapping_enum[OF assms(2) en, of mod_name xplc]
    show "((\<exists>c. target_cfg xplc = Some c \<and> \<not> is_empty (write_stmt c))
             \<longrightarrow> filter (\<lambda>f. path f = mod_path mod_name @ ''.x-plc.target.write_stmt'')
                   (target_mapping_mod mod_name m xplc) = [write_stmt_on_enum mod_name])
        \<and> (\<not> (\<exists>c. target_cfg xplc = Some c \<and> \<not> is_empty (enum_tag c))
             \<longrightarrow> filter (\<lambda>f. severity f = WARNING) (target_mapping_mod mod_name m xplc)
                   = [enum_tag_missing mod_name])
        \<and> ((\<exists>c. target_cfg xplc = Some c \<and> reach_abs_tolerance c \<noteq> None)
             \<longrightarrow> tolerance_on_enum mod_name \<in> set (target_mapping_mod mod_name m xplc))"
      unfolding eq has_text_iff[symmetric]
      by (auto simp: target_findings has_tolerance_def)
  qed
  have ne: "strip (type_di (datainfo acc)) \<noteq> ''enum'' \<longrightarrow>
          ((\<exists>c. target_cfg xplc = Some c \<and> \<not> is_empty (enum_tag c))
             \<longrightarrow> enum_tag_on_non_enum mod_name (strip (type_di (datainfo acc)))
                   \<in> set (target_mapping_mod mod_name m xplc))
        \<and> (\<not> (\<exists>c. target_cfg xplc = Some c \<and> \<not> is_empty (write_stmt c))
             \<longrightarrow> filter (\<lambda>f. severity f = WARNING) (target_mapping_mod mod_name m xplc)
                   = [write_stmt_missing mod_name])"
  proof
    assume en: "strip (type_di (datainfo acc)) \<noteq> ''enum''"
    note eq = target_mapping_non_enum[OF assms(2) en, of mod_name xplc]
    show "((\<exists>c. target_cfg xplc = Some c \<and> \<not> is_empty (enum_tag c))
             \<longrightarrow> enum_tag_on_non_enum mod_name (strip (type_di (datainfo acc)))
                   \<in> set (target_mapping_mod mod_name m xplc))
        \<and> (\<not> (\<exists>c. target_cfg xplc = Some c \<and> \<not> is_empty (write_stmt c))
             \<longrightarrow> filter (\<lambda>f. severity f = WARNING) (target_mapping_mod mod_name m xplc)
                   = [write_stmt_missing mod_name])"
      unfolding eq has_text_iff[symmetric]
      by (auto simp: target_findings)
  qed
  have sub: "(mod_name, m) \<in> set (modules cfg)
          \<longrightarrow> set (target_mapping_mod mod_name m xplc) \<subseteq> set (rule_xplc_target_mapping_by_type cfg)"
    unfolding rule_xplc_target_mapping_by_type_def
    using for_xplc_modules_subset[OF _ assms(1)] by blast
  from a e ne sub show ?thesis by (simp add: target_findings)
qed

theorem target_mapping_by_type_witness:
  "target_mapping_mod ''sw'' switch_module switch_xplc
     = [write_stmt_on_enum ''sw'', enum_tag_missing ''sw'']"
proof -
  have x: "x_plc_mod switch_module = Some switch_xplc"
    by (simp add: switch_module_def sample_module_def)
  have t: "map_of (accessibles switch_module) ''target''
     = Some (Accessible_init ''target''
           (DataInfo ''enum'' None None None None None (Some (MDict [(''off'', 0), (''on'', 1)])) None None)
           (Some False) None)"
    by (simp add: switch_module_def sample_module_def)
  note th = target_mapping_by_type[OF x t, of "''sw''" readable_node]
  have e: "strip ''enum'' = ''enum''" by (rule strip_enum)
  have ws: "\<not> is_empty (Some ''G_iCmd := 1;'')"
    by (simp add: is_empty_def strip_def is_space_def)
  have a: "filter (\<lambda>f. path f = mod_path ''sw'' @ ''.x-plc.target.write_stmt'')
             (target_mapping_mod ''sw'' switch_module switch_xplc) = [write_stmt_on_enum ''sw'']"
    using th e ws by (simp add: Accessible_init_def switch_xplc_def)
  have b: "filter (\<lambda>f. severity f = WARNING) (target_mapping_mod ''sw'' switch_module switch_xplc)
             = [enum_tag_missing ''sw'']"
    using th e by (simp add: Accessible_init_def switch_xplc_def is_empty_def strip_Nil)
  have "target_mapping_mod ''sw'' switch_module switch_xplc
     = [write_stmt_on_enum ''sw'', enum_tag_missing ''sw'']"
    using e ws
    by (simp add: target_mapping_mod_def switch_module_def sample_module_def Accessible_init_def
        switch_xplc_def has_text_def or_empty_def has_tolerance_def is_empty_def strip_Nil)
  with a b show ?thesis by simp
qed

section \<open>Disabled-state coherence\<close>

lemma disabled_findings:
  "severity (disabled_error n) = ERROR" "rule_id (disabled_error n) = ''R-PLC-022''"
  "severity (disabled_warning n field) = WARNING" "rule_id (disabled_warning n field) = ''R-PLC-023''"
  "path (disabled_warning n field) = mod_path n @ ''.x-plc.status.'' @ field"
  by (simp_all add: disabled_error_def disabled_warning_def finding_def)

lemma disabled_error_not_warning: "disabled_error n \<noteq> disabled_warning n field"
  by (simp add: disabled_error_def disabled_warning_def finding_def)

lemma status_has_disabled_0_iff:
  "status_has_disabled_0 m
   \<longleftrightarrow> (\<exists>enum_members v. status_enum_members m = Some enum_members
         \<and> map_of enum_members ''DISABLED'' = Some v \<and> py_eq_int v 0)"
  by (auto simp: status_has_disabled_0_def split: option.splits)

theorem disabled_without_tooling_counterexample:
  "status_has_disabled_0 disabled_module
   \<and> x_plc_mod disabled_module = None
   \<and> rule_xplc_status_disabled_fields_coherent disabled_node = []
   \<and> validate_config disabled_node = Inr [cls001 ''m1'' [''value'', ''pollinterval'']]"
  by code_simp

text \<open>
  C7, amended. Let a module have a tooling block with a status fragment. If
  \<open>disabled_expr\<close> or \<open>disabled_description\<close> is non-empty while the status enum has no
  DISABLED member equal to 0, the rule yields the R-PLC-022 ERROR. If the status enum has
  DISABLED equal to 0, the rule yields an R-PLC-023 WARNING for each of the two fields that
  is absent or blank, and no ERROR. A module without a tooling block, or without the status
  fragment in it, gets no finding of this rule.
\<close>

theorem disabled_fields_coherent:
  assumes "x_plc_mod m = Some xplc" and "status_cfg xplc = Some st"
  shows
    "((\<not> is_empty (disabled_expr st) \<or> \<not> is_empty (disabled_description st))
        \<and> \<not> status_has_disabled_0 m
        \<longrightarrow> disabled_error mod_name \<in> set (disabled_fields_mod mod_name m))
     \<and> (status_has_disabled_0 m \<longrightarrow>
          (is_empty (disabled_expr st)
             \<longrightarrow> disabled_warning mod_name ''disabled_expr'' \<in> set (disabled_fields_mod mod_name m))
        \<and> (is_empty (disabled_description st)
             \<longrightarrow> disabled_warning mod_name ''disabled_description'' \<in> set (disabled_fields_mod mod_name m))
        \<and> (\<forall>f \<in> set (disabled_fields_mod mod_name m). severity f = WARNING))
     \<and> (status_has_disabled_0 m
          \<longleftrightarrow> (\<exists>enum_members v. status_enum_members m = Some enum_members
                \<and> map_of enum_members ''DISABLED'' = Some v \<and> py_eq_int v 0))
     \<and> severity (disabled_error mod_name) = ERROR
     \<and> (\<forall>field. severity (disabled_warning mod_name field) = WARNING
           \<and> path (disabled_warning mod_name field) = mod_path mod_name @ ''.x-plc.status.'' @ field)
     \<and> ((mod_name, m) \<in> set (modules cfg)
          \<longrightarrow> set (disabled_fields_mod mod_name m)
              \<subseteq> set (rule_xplc_status_disabled_fields_coherent cfg))
     \<and> (\<forall>m'. x_plc_mod m' = None \<or> (\<exists>x. x_plc_mod m' = Some x \<and> status_cfg x = None)
           \<longrightarrow> disabled_fields_mod mod_name m' = [])"
proof -
  have eq: "disabled_fields_mod mod_name m = disabled_fields_status mod_name m st"
    using assms by (simp add: disabled_fields_mod_def)
  have a: "(\<not> is_empty (disabled_expr st) \<or> \<not> is_empty (disabled_description st))
        \<and> \<not> status_has_disabled_0 m
        \<longrightarrow> disabled_error mod_name \<in> set (disabled_fields_mod mod_name m)"
    unfolding eq by (simp add: disabled_fields_status_def Let_def)
  have b: "status_has_disabled_0 m \<longrightarrow>
          (is_empty (disabled_expr st)
             \<longrightarrow> disabled_warning mod_name ''disabled_expr'' \<in> set (disabled_fields_mod mod_name m))
        \<and> (is_empty (disabled_description st)
             \<longrightarrow> disabled_warning mod_name ''disabled_description'' \<in> set (disabled_fields_mod mod_name m))
        \<and> (\<forall>f \<in> set (disabled_fields_mod mod_name m). severity f = WARNING)"
    unfolding eq by (auto simp: disabled_fields_status_def Let_def disabled_findings)
  note c = status_has_disabled_0_iff[of m]
  have d: "severity (disabled_error mod_name) = ERROR"
    "\<forall>field. severity (disabled_warning mod_name field) = WARNING
           \<and> path (disabled_warning mod_name field) = mod_path mod_name @ ''.x-plc.status.'' @ field"
    by (simp_all add: disabled_findings)
  have e: "(mod_name, m) \<in> set (modules cfg)
          \<longrightarrow> set (disabled_fields_mod mod_name m)
              \<subseteq> set (rule_xplc_status_disabled_fields_coherent cfg)"
    unfolding rule_xplc_status_disabled_fields_coherent_def using for_modules_subset by blast
  have f: "\<forall>m'. x_plc_mod m' = None \<or> (\<exists>x. x_plc_mod m' = Some x \<and> status_cfg x = None)
           \<longrightarrow> disabled_fields_mod mod_name m' = []"
    by (auto simp: disabled_fields_mod_def)
  from a b c d e f show ?thesis by (intro conjI)
qed

theorem disabled_fields_coherent_witness:
  "disabled_error ''m1'' \<in> set (disabled_fields_mod ''m1'' (tooled_module [(''IDLE'', JInt 100)]))
   \<and> disabled_warning ''m1'' ''disabled_description''
       \<in> set (disabled_fields_mod ''m1'' (tooled_module [(''DISABLED'', JInt 0)]))"
proof -
  have x: "x_plc_mod (tooled_module em) = Some status_xplc" for em
    by (simp add: tooled_module_def sample_module_def)
  have s: "status_cfg status_xplc = Some disabled_status_cfg"
    by (simp add: status_xplc_def)
  note t1 = disabled_fields_coherent[OF x s, of "[(''IDLE'', JInt 100)]" "''m1''" readable_node]
  note t2 = disabled_fields_coherent[OF x s, of "[(''DISABLED'', JInt 0)]" "''m1''" readable_node]
  have n0: "\<not> status_has_disabled_0 (tooled_module [(''IDLE'', JInt 100)])" by code_simp
  have y0: "status_has_disabled_0 (tooled_module [(''DISABLED'', JInt 0)])" by code_simp
  have ne: "\<not> is_empty (disabled_expr disabled_status_cfg)" by code_simp
  have em: "is_empty (disabled_description disabled_status_cfg)" by code_simp
  from t1 n0 ne have a: "disabled_error ''m1'' \<in> set (disabled_fields_mod ''m1'' (tooled_module [(''IDLE'', JInt 100)]))"
    by blast
  from t2 y0 em have b: "disabled_warning ''m1'' ''disabled_description''
       \<in> set (disabled_fields_mod ''m1'' (tooled_module [(''DISABLED'', JInt 0)]))"
    by blast
  from a b show ?thesis ..
qed

section \<open>Absent tooling\<close>








lemma tooled_readable_node_report:
  "validate_config tooled_readable_node
     = Inr [not_configured ''R-PLC-010'' ''$.x-plc.tcp'' ''x-plc.tcp'' [''SecopInit''],
            not_configured ''R-PLC-020'' ''$.modules.m1.x-plc.timestamp_tag''
              ''x-plc.timestamp_tag'' [''SecopMapFromPlc''],
            not_configured ''R-PLC-031'' ''$.modules.m1.x-plc.value.read_expr''
              ''x-plc.value.read_expr'' [''SecopMapFromPlc'']]"
  by code_simp




end
